theory Spec2Isabelle
  imports
    Complex_Main
    "HOL-Library.Product_Lexorder"
    "HOL-Library.Char_ord"
    "HOL-Library.List_Lexorder"
    "HOL-Library.Multiset"
    "HOL-Library.Word"
begin

unbundle bit_operations_syntax

section \<open>Python strings\<close>

text \<open>
  A Python \<open>str\<close> is modelled as a \<open>string\<close>; a \<open>char\<close> stands for a code point
  below 256. \<open>py_isspace\<close> lists the code points below 256 for which \<open>str.isspace\<close>
  holds, which are the ones \<open>str.strip()\<close> and \<open>str.split()\<close> remove.
\<close>

definition py_isspace :: "char \<Rightarrow> bool" where
  "py_isspace c = (of_char c \<in> {9, 10, 11, 12, 13, 28, 29, 30, 31, 32, 133, 160 :: nat})"

definition strip :: "string \<Rightarrow> string" where
  "strip s = rev (dropWhile py_isspace (rev (dropWhile py_isspace s)))"

text \<open>\<open>str.lower()\<close> on code points below 256: A-Z and the Latin-1 capitals.\<close>

definition lower_char :: "char \<Rightarrow> char" where
  "lower_char c =
     (let n = of_char c :: nat
      in if (65 \<le> n \<and> n \<le> 90) \<or> (192 \<le> n \<and> n \<le> 222 \<and> n \<noteq> 215)
         then char_of (n + 32) else c)"

definition lower :: "string \<Rightarrow> string" where
  "lower s = map lower_char s"

text \<open>\<open>s.startswith(p)\<close> and the substring test \<open>kw in t\<close>.\<close>

fun startswith :: "string \<Rightarrow> string \<Rightarrow> bool" where
  "startswith s [] = True"
| "startswith [] (p # ps) = False"
| "startswith (c # cs) (p # ps) = (c = p \<and> startswith cs ps)"

fun contains :: "string \<Rightarrow> string \<Rightarrow> bool" where
  "contains kw [] = (kw = [])"
| "contains kw (c # cs) = (startswith (c # cs) kw \<or> contains kw cs)"

text \<open>
  \<open>s.split()\<close> without arguments cuts at runs of whitespace and drops empty pieces;
  the first argument of \<open>py_split\<close> is the word being read. \<open>" ".join(s.split())\<close>
  is \<open>collapse s\<close>.
\<close>

fun py_split :: "string \<Rightarrow> string \<Rightarrow> string list" where
  "py_split w [] = (if w = [] then [] else [w])"
| "py_split w (c # cs) =
     (if py_isspace c then (if w = [] then py_split [] cs else w # py_split [] cs)
      else py_split (w @ [c]) cs)"

fun py_join :: "string \<Rightarrow> string list \<Rightarrow> string" where
  "py_join sep [] = []"
| "py_join sep [x] = x"
| "py_join sep (x # y # ys) = x @ sep @ py_join sep (y # ys)"

definition collapse :: "string \<Rightarrow> string" where
  "collapse s = py_join '' '' (py_split [] s)"

text \<open>\<open>p.replace("Z", "+00:00")\<close>: every \<open>Z\<close> is replaced.\<close>

definition replace_Z :: "string \<Rightarrow> string" where
  "replace_Z p = concat (map (\<lambda>c. if c = CHR ''Z'' then ''+00:00'' else [c]) p)"

text \<open>
  \<open>list(dict.fromkeys(xs))\<close>: the keys in the order of their first occurrence. The
  accumulator is the dictionary built so far.
\<close>

fun dict_fromkeys :: "'a list \<Rightarrow> 'a list \<Rightarrow> 'a list" where
  "dict_fromkeys acc [] = acc"
| "dict_fromkeys acc (k # ks) =
     (if k \<in> set acc then dict_fromkeys acc ks else dict_fromkeys (acc @ [k]) ks)"

section \<open>The classifier: \<open>score_item\<close>\<close>

definition AWARD_TERMS :: "string list" where
  "AWARD_TERMS =
    [''oscar'', ''oscars'', ''academy award'', ''academy awards'',
     ''bafta'', ''emmy'', ''golden globe'', ''golden globes'',
     ''sag'', ''dga'', ''pga'', ''wga'', ''guild'',
     ''nominee'', ''nominees'', ''nomination'', ''nominations'',
     ''shortlist'', ''longlist'', ''winner'', ''winners'', ''wins'',
     ''for your consideration'', ''fyc'', ''campaign'', ''contender'', ''awards season'',
     ''critics choice'', ''cannes'', ''venice'', ''berlin'', ''sundance'', ''telluride'',
     ''tiff'']"

definition NEGATIVE_HINTS :: "string list" where
  "NEGATIVE_HINTS = [''trailer'', ''teaser'', ''box office'', ''first look'', ''poster'']"

definition strong :: "string list" where
  "strong = [''nominations'', ''nominees'', ''shortlist'', ''longlist'', ''winners'',
             ''wins'', ''eligibility'', ''rules'', ''deadline'']"

text \<open>
  The three loops of \<open>score_item\<close> are folds over the vocabularies, in the order of the
  source. The score is a Python float; it is modelled as a rational, so \<open>1.0\<close>, \<open>0.6\<close>
  and \<open>0.8\<close> are exact and the rounding of the additions is not modelled. \<open>text or ""\<close>
  is the identity on strings.
\<close>

definition award_step :: "string \<Rightarrow> string \<Rightarrow> rat \<times> string list \<Rightarrow> rat \<times> string list" where
  "award_step t kw acc =
     (case acc of (score, hits) \<Rightarrow>
        if contains kw t then (score + 1.0, hits @ [kw]) else (score, hits))"

definition strong_step :: "string \<Rightarrow> string \<Rightarrow> rat \<Rightarrow> rat" where
  "strong_step t kw score = (if contains kw t then score + 0.6 else score)"

definition negative_step :: "string \<Rightarrow> string \<Rightarrow> rat \<Rightarrow> rat" where
  "negative_step t bad score = (if contains bad t then score - 0.8 else score)"

definition score_item :: "string \<Rightarrow> rat \<times> string list" where
  "score_item text =
     (let t = lower text;
          (score, hits) = fold (award_step t) AWARD_TERMS (0.0, []);
          score = fold (strong_step t) strong score;
          score = fold (negative_step t) NEGATIVE_HINTS score;
          score = max 0.0 (min score 10.0);
          hits = take 10 (dict_fromkeys [] hits)
      in (score, hits))"

section \<open>The stable identifier\<close>

text \<open>
  \<open>hashlib.sha256(...).hexdigest()\<close> is SHA-256 on the UTF-8 encoding of the string.
  Bytes are 8-bit words and the working variables are 32-bit words, whose addition
  wraps. A code point from 128 to 255 is encoded in two bytes.
\<close>

type_synonym byte = "8 word"

type_synonym w32 = "32 word"

definition utf8_encode :: "string \<Rightarrow> byte list" where
  "utf8_encode s =
     concat (map (\<lambda>c. let n = of_char c :: byte
                      in if n < 128 then [n] else [192 OR drop_bit 6 n, 128 OR (n AND 63)]) s)"

text \<open>
  The round constants are the first 32 bits of the fractional parts of the cube roots
  of the first 64 primes, and the initial hash value is the same of the square roots
  of the first 8. \<open>iroot k n\<close> is the integer part of the \<open>k\<close>-th root of \<open>n\<close>, for
  \<open>n\<close> below \<open>2 ^ (40 * k)\<close>, found bit by bit from the top; the root of
  \<open>p * 2 ^ (32 * k)\<close> is the root of \<open>p\<close> shifted by 32 bits, and the conversion to
  a word keeps the 32 bits below the point.
\<close>

definition is_prime :: "nat \<Rightarrow> bool" where
  "is_prime n = (1 < n \<and> list_all (\<lambda>d. n mod d \<noteq> 0) [2..<n])"

definition first_primes :: "nat list" where
  "first_primes = filter is_prime [2..<312]"

definition iroot :: "nat \<Rightarrow> int \<Rightarrow> int" where
  "iroot k n =
     fold (\<lambda>b r. if (r + 2 ^ b) ^ k \<le> n then r + 2 ^ b else r) (rev [0..<40]) 0"

definition K256 :: "w32 list" where
  "K256 = map (\<lambda>p. of_int (iroot 3 (int p * 2 ^ 96))) first_primes"

definition H256 :: "w32 list" where
  "H256 = map (\<lambda>p. of_int (iroot 2 (int p * 2 ^ 64))) (take 8 first_primes)"

definition rotr :: "nat \<Rightarrow> w32 \<Rightarrow> w32" where
  "rotr n x = drop_bit n x OR push_bit (32 - n) x"

definition Ch :: "w32 \<Rightarrow> w32 \<Rightarrow> w32 \<Rightarrow> w32" where
  "Ch x y z = (x AND y) XOR (NOT x AND z)"

definition Maj :: "w32 \<Rightarrow> w32 \<Rightarrow> w32 \<Rightarrow> w32" where
  "Maj x y z = (x AND y) XOR (x AND z) XOR (y AND z)"

definition bsig0 :: "w32 \<Rightarrow> w32" where
  "bsig0 x = rotr 2 x XOR rotr 13 x XOR rotr 22 x"

definition bsig1 :: "w32 \<Rightarrow> w32" where
  "bsig1 x = rotr 6 x XOR rotr 11 x XOR rotr 25 x"

definition ssig0 :: "w32 \<Rightarrow> w32" where
  "ssig0 x = rotr 7 x XOR rotr 18 x XOR drop_bit 3 x"

definition ssig1 :: "w32 \<Rightarrow> w32" where
  "ssig1 x = rotr 17 x XOR rotr 19 x XOR drop_bit 10 x"

text \<open>
  Padding: the byte \<open>0x80\<close>, zeros up to 56 modulo 64, and the length of the message
  in bits as eight bytes, the highest first.
\<close>

definition be64 :: "64 word \<Rightarrow> byte list" where
  "be64 n = map (\<lambda>i. ucast (drop_bit (8 * i) n)) [7, 6, 5, 4, 3, 2, 1, 0]"

definition sha_pad :: "byte list \<Rightarrow> byte list" where
  "sha_pad msg =
     msg @ [128] @ replicate ((119 - length msg mod 64) mod 64) 0
       @ be64 (of_nat (8 * length msg))"

fun be_words :: "byte list \<Rightarrow> w32 list" where
  "be_words (a # b # c # d # bs) =
     (push_bit 24 (ucast a) OR push_bit 16 (ucast b) OR push_bit 8 (ucast c) OR ucast d)
       # be_words bs"
| "be_words bs = []"

text \<open>The message schedule grows from 16 to 64 words; then 64 rounds on eight words.\<close>

fun schedule :: "nat \<Rightarrow> w32 list \<Rightarrow> w32 list" where
  "schedule 0 w = w"
| "schedule (Suc n) w =
     (let t = length w
      in schedule n
           (w @ [ssig1 (w ! (t - 2)) + w ! (t - 7) + ssig0 (w ! (t - 15)) + w ! (t - 16)]))"

definition round256 :: "w32 \<times> w32 \<Rightarrow> w32 list \<Rightarrow> w32 list" where
  "round256 kw s =
     (case s of [a, b, c, d, e, f, g, h] \<Rightarrow>
        (let t1 = h + bsig1 e + Ch e f g + fst kw + snd kw;
             t2 = bsig0 a + Maj a b c
         in [t1 + t2, a, b, c, d + t1, e, f, g])
      | _ \<Rightarrow> s)"

definition compress :: "w32 list \<Rightarrow> w32 list \<Rightarrow> w32 list" where
  "compress block h = map2 (+) h (fold round256 (zip K256 (schedule 48 block)) h)"

fun sha_blocks :: "nat \<Rightarrow> w32 list \<Rightarrow> w32 list \<Rightarrow> w32 list" where
  "sha_blocks 0 ws h = h"
| "sha_blocks (Suc n) ws h = sha_blocks n (drop 16 ws) (compress (take 16 ws) h)"

definition sha256 :: "byte list \<Rightarrow> w32 list" where
  "sha256 msg = (let ws = be_words (sha_pad msg) in sha_blocks (length ws div 16) ws H256)"

definition hex_digit :: "w32 \<Rightarrow> char" where
  "hex_digit n = (if n < 10 then char_of (48 + unat n) else char_of (87 + unat n))"

definition hex_word :: "w32 \<Rightarrow> string" where
  "hex_word w = map (\<lambda>i. hex_digit (drop_bit (4 * i) w AND 15)) [7, 6, 5, 4, 3, 2, 1, 0]"

definition hexdigest :: "w32 list \<Rightarrow> string" where
  "hexdigest h = concat (map hex_word h)"

text \<open>\<open>stable_id\<close>; \<open>title or ""\<close> is the identity on strings.\<close>

definition stable_id :: "string \<Rightarrow> string \<Rightarrow> string" where
  "stable_id url title =
     take 24 (hexdigest (sha256 (utf8_encode (strip url @ ''|'' @ strip title))))"

section \<open>Data\<close>

text \<open>
  An exception is modelled by what the program can observe of it: a \<open>KeyError\<close> with
  its key, or any other exception with its message. \<open>exn_str\<close> is \<open>str(e)\<close>, which
  for a \<open>KeyError\<close> is the key in quotes.
\<close>

datatype pyexn = KeyError string | Raised string

fun exn_str :: "pyexn \<Rightarrow> string" where
  "exn_str (KeyError k) = [CHR 0x27] @ k @ [CHR 0x27]"
| "exn_str (Raised msg) = msg"

text \<open>The dictionary an adapter returns for one entry, and the one \<open>main\<close> appends.\<close>

record item =
  title :: string
  url :: string
  summary :: string
  published :: string

record scored_item = item +
  sid :: string
  score :: rat
  hits :: "string list"
  source :: string
  stype :: string
  affects_nom :: bool
  affects_win :: bool

text \<open>
  One object of \<open>sources.json\<close>. A key can be missing, so every field is an option;
  \<open>src_affects_nom\<close> and \<open>src_affects_win\<close> hold the truth value \<open>bool(...)\<close> gives.
  The fields of \<open>scored_item\<close> named \<open>sid\<close> and \<open>stype\<close> are the keys \<open>"id"\<close> and
  \<open>"type"\<close>.
\<close>

record source_cfg =
  src_name :: "string option"
  src_rss :: "string option"
  src_url :: "string option"
  src_type :: "string option"
  src_affects_nom :: "bool option"
  src_affects_win :: "bool option"

text \<open>
  What the libraries hand to the adapters. An \<open>entry\<close> is an entry of
  \<open>feedparser.parse(url).entries\<close>: its title and link (\<open>""\<close> when the attribute is
  missing), the plain text BeautifulSoup extracts from its summary or description, and
  the string \<open>parse_rss\<close> computes from \<open>published_parsed\<close> (the ISO form of a UTC
  time, or \<open>""\<close>). An \<open>anchor\<close> is an element of \<open>soup.select("a[href]")\<close>: its
  \<open>href\<close>, its text, and the text of the first paragraph of its parent if there is one.
\<close>

record entry =
  e_title :: string
  e_link :: string
  e_summary :: string
  e_published :: string

record anchor =
  a_href :: string
  a_text :: string
  a_para :: "string option"

text \<open>
  Library functions of which the program only uses the result are parameters:
  \<open>datetime.fromisoformat\<close> (\<open>None\<close> when it raises, otherwise the instant of the
  timezone-aware result in microseconds since the epoch; \<open>parse_rss\<close> writes UTC
  offsets only, so no naive datetime reaches a comparison), \<open>urljoin\<close> and
  \<open>urlparse(...).netloc\<close>, which can raise.
\<close>

record pylib =
  fromisoformat :: "string \<Rightarrow> int option"
  urljoin :: "string \<Rightarrow> string \<Rightarrow> pyexn + string"
  netloc :: "string \<Rightarrow> pyexn + string"

text \<open>
  The state the run starts in: the two files, the two environment variables and what
  the network answers. \<open>sources_json\<close> is what \<open>open\<close> and \<open>json.load\<close> give for
  \<open>sources.json\<close>; \<open>state_seen_json\<close> is \<open>state_seen.json\<close>, which is absent, holds a
  list of identifiers, or cannot be read or decoded. \<open>env_MIN_SCORE\<close> holds the value
  \<open>float\<close> returns for the variable.
\<close>

datatype seen_file = Absent | Stored "string list" | Unreadable pyexn

record world =
  sources_json :: "pyexn + source_cfg list"
  state_seen_json :: seen_file
  env_MIN_SCORE :: "rat option"
  env_MARK_SEEN :: "string option"
  feeds :: "string \<Rightarrow> pyexn + entry list"
  pages :: "string \<Rightarrow> pyexn + anchor list"

section \<open>Files\<close>

definition load_sources :: "world \<Rightarrow> pyexn + source_cfg list" where
  "load_sources W = sources_json W"

definition load_seen :: "world \<Rightarrow> pyexn + string set" where
  "load_seen W =
     (case state_seen_json W of
        Absent \<Rightarrow> Inr {}
      | Stored ids \<Rightarrow> Inr (set ids)
      | Unreadable e \<Rightarrow> Inl e)"

definition save_seen :: "string set \<Rightarrow> seen_file" where
  "save_seen seen = Stored (sorted_list_of_set seen)"

section \<open>Adapters\<close>

fun rss_loop :: "entry list \<Rightarrow> item list" where
  "rss_loop [] = []"
| "rss_loop (e # es) =
     (let t = strip (e_title e); link = strip (e_link e)
      in if t \<noteq> [] \<and> link \<noteq> []
         then \<lparr>title = t, url = link, summary = e_summary e, published = e_published e\<rparr>
                # rss_loop es
         else rss_loop es)"

definition parse_rss :: "world \<Rightarrow> string \<Rightarrow> nat \<Rightarrow> pyexn + item list" where
  "parse_rss W rss_url limit =
     (case feeds W rss_url of
        Inl e \<Rightarrow> Inl e
      | Inr entries \<Rightarrow> Inr (rss_loop (take limit entries)))"

definition bad :: "string list" where
  "bad = [''privacy'', ''terms'', ''account'', ''login'', ''subscribe'', ''newsletter'',
          ''contact'', ''about'']"

text \<open>
  The loop over the anchors of \<open>parse_listing\<close>. An exception of \<open>urljoin\<close> or
  \<open>urlparse\<close> leaves the function; the anchors are visited in order, so it is the first
  one raised.
\<close>

fun listing_loop :: "pylib \<Rightarrow> string \<Rightarrow> string \<Rightarrow> anchor list \<Rightarrow> pyexn + item list" where
  "listing_loop L page_url site_host [] = Inr []"
| "listing_loop L page_url site_host (a # as) =
     (let h = strip (a_href a);
          t = collapse (a_text a)
      in if length t < 18 then listing_loop L page_url site_host as
         else
           (case (if startswith h ''http'' then Inr h else urljoin L page_url h) of
              Inl e \<Rightarrow> Inl e
            | Inr full \<Rightarrow>
                if \<not> startswith full ''http'' then listing_loop L page_url site_host as
                else
                  (case netloc L full of
                     Inl e \<Rightarrow> Inl e
                   | Inr host \<Rightarrow>
                       if host \<noteq> site_host then listing_loop L page_url site_host as
                       else if list_ex (\<lambda>b. contains b (lower full)) bad
                         then listing_loop L page_url site_host as
                       else
                         (case listing_loop L page_url site_host as of
                            Inl e \<Rightarrow> Inl e
                          | Inr found \<Rightarrow>
                              Inr (\<lparr>title = t, url = full,
                                    summary = (case a_para a of None \<Rightarrow> [] | Some p \<Rightarrow> collapse p),
                                    published = []\<rparr> # found)))))"

fun dedupe_url :: "string set \<Rightarrow> item list \<Rightarrow> item list" where
  "dedupe_url seen [] = []"
| "dedupe_url seen (it # its) =
     (if url it \<in> seen then dedupe_url seen its
      else it # dedupe_url (insert (url it) seen) its)"

definition parse_listing :: "pylib \<Rightarrow> world \<Rightarrow> string \<Rightarrow> nat \<Rightarrow> pyexn + item list" where
  "parse_listing L W page_url limit =
     (case pages W page_url of
        Inl e \<Rightarrow> Inl e
      | Inr anchors \<Rightarrow>
          (case netloc L page_url of
             Inl e \<Rightarrow> Inl e
           | Inr site_host \<Rightarrow>
               (case listing_loop L page_url site_host anchors of
                  Inl e \<Rightarrow> Inl e
                | Inr found \<Rightarrow> Inr (take limit (dedupe_url {} found)))))"

section \<open>The run\<close>

text \<open>
  The variables \<open>main\<close> updates while it loops, and \<open>requests\<close>, the locations asked
  of the network so far.
\<close>

record run_state =
  seen :: "string set"
  all_items :: "scored_item list"
  errors :: "string list"
  requests :: "string list"

text \<open>The branch of the \<open>try\<close> block: \<open>s.get("rss")\<close> is false for a missing key and for \<open>""\<close>.\<close>

definition has_rss :: "source_cfg \<Rightarrow> bool" where
  "has_rss s = (case src_rss s of None \<Rightarrow> False | Some r \<Rightarrow> r \<noteq> [])"

definition fetch_source :: "pylib \<Rightarrow> world \<Rightarrow> source_cfg \<Rightarrow> pyexn + item list" where
  "fetch_source L W s =
     (if has_rss s then parse_rss W (the (src_rss s)) 40
      else (case src_url s of
              None \<Rightarrow> Inl (KeyError ''url'')
            | Some u \<Rightarrow> parse_listing L W u 50))"

definition request_of :: "source_cfg \<Rightarrow> string list" where
  "request_of s =
     (if has_rss s then [the (src_rss s)]
      else (case src_url s of None \<Rightarrow> [] | Some u \<Rightarrow> [u]))"

text \<open>
  The dictionary appended to \<open>all_items\<close>. Its values are evaluated in the order
  written, so the first missing key of the source is the one reported.
\<close>

definition make_scored ::
  "source_cfg \<Rightarrow> item \<Rightarrow> string \<Rightarrow> rat \<Rightarrow> string list \<Rightarrow> pyexn + scored_item" where
  "make_scored s it i sc hs =
     (case src_name s of None \<Rightarrow> Inl (KeyError ''name'') | Some n \<Rightarrow>
      (case src_type s of None \<Rightarrow> Inl (KeyError ''type'') | Some ty \<Rightarrow>
       (case src_affects_nom s of None \<Rightarrow> Inl (KeyError ''affects_nom'') | Some an \<Rightarrow>
        (case src_affects_win s of None \<Rightarrow> Inl (KeyError ''affects_win'') | Some aw \<Rightarrow>
           Inr \<lparr>title = title it, url = url it, summary = summary it,
                published = published it, sid = i, score = sc, hits = hs, source = n,
                stype = ty, affects_nom = an, affects_win = aw\<rparr>))))"

definition item_text :: "item \<Rightarrow> string" where
  "item_text it = title it @ '' '' @ summary it"

definition item_id :: "item \<Rightarrow> string" where
  "item_id it = stable_id (url it) (title it)"

text \<open>The test \<open>score < min_score\<close> that sends an item to \<open>continue\<close>.\<close>

definition below_threshold :: "rat \<Rightarrow> rat \<Rightarrow> bool" where
  "below_threshold sc min_score = (sc < min_score)"

text \<open>
  The inner loop. An exception that leaves it leaves \<open>main\<close> too; the result then holds
  the exception and the state it was raised in.
\<close>

fun item_loop ::
  "rat \<Rightarrow> bool \<Rightarrow> source_cfg \<Rightarrow> item list \<Rightarrow> run_state \<Rightarrow> (pyexn \<times> run_state) + run_state" where
  "item_loop min_score mark_seen s [] st = Inr st"
| "item_loop min_score mark_seen s (it # its) st =
     (if item_id it \<in> seen st then item_loop min_score mark_seen s its st
      else
        (case score_item (item_text it) of (sc, hs) \<Rightarrow>
           if below_threshold sc min_score then item_loop min_score mark_seen s its st
           else
             (case make_scored s it (item_id it) sc hs of
                Inl e \<Rightarrow> Inl (e, st)
              | Inr x \<Rightarrow>
                  item_loop min_score mark_seen s its
                    (st\<lparr>all_items := all_items st @ [x],
                        seen := (if mark_seen then insert (item_id it) (seen st)
                                 else seen st)\<rparr>))))"

text \<open>
  The outer loop with its \<open>try\<close> block. The handler reads \<open>s['name']\<close>, so a failing
  source without a name raises from the handler.
\<close>

fun source_loop ::
  "pylib \<Rightarrow> world \<Rightarrow> rat \<Rightarrow> bool \<Rightarrow> source_cfg list \<Rightarrow> run_state
     \<Rightarrow> (pyexn \<times> run_state) + run_state" where
  "source_loop L W min_score mark_seen [] st = Inr st"
| "source_loop L W min_score mark_seen (s # ss) st =
     (let st1 = st\<lparr>requests := requests st @ request_of s\<rparr>
      in case fetch_source L W s of
           Inl e \<Rightarrow>
             (case src_name s of
                None \<Rightarrow> Inl (KeyError ''name'', st1)
              | Some n \<Rightarrow>
                  source_loop L W min_score mark_seen ss
                    (st1\<lparr>errors := errors st1 @ [n @ '': '' @ exn_str e]\<rparr>))
         | Inr items \<Rightarrow>
             (case item_loop min_score mark_seen s items st1 of
                Inl x \<Rightarrow> Inl x
              | Inr st2 \<Rightarrow> source_loop L W min_score mark_seen ss st2))"

text \<open>
  The sort. \<open>list.sort\<close> is stable and \<open>reverse=True\<close> keeps the order of equal keys:
  it is the stable ascending sort of the reversed list, reversed. The key is the pair
  of the score and \<open>pub_key\<close>, compared lexicographically.
\<close>

definition pub_key :: "pylib \<Rightarrow> string \<Rightarrow> int" where
  "pub_key L p = (case fromisoformat L (replace_Z p) of Some t \<Rightarrow> t | None \<Rightarrow> 0)"

definition rank_key :: "pylib \<Rightarrow> scored_item \<Rightarrow> rat \<times> int" where
  "rank_key L x = (score x, pub_key L (published x))"

definition rank :: "pylib \<Rightarrow> scored_item list \<Rightarrow> scored_item list" where
  "rank L xs = rev (sort_key (rank_key L) (rev xs))"

text \<open>
  What a run that reaches its end leaves: the list handed to \<open>build_html\<close>, the state
  file written by \<open>save_seen\<close>, the failures printed, and the requests made.
\<close>

record run =
  digest :: "scored_item list"
  state_file :: seen_file
  report :: "string list"
  trace :: "string list"

definition min_score_of :: "world \<Rightarrow> rat" where
  "min_score_of W = (case env_MIN_SCORE W of None \<Rightarrow> 3.5 | Some v \<Rightarrow> v)"

definition mark_seen_of :: "world \<Rightarrow> bool" where
  "mark_seen_of W = ((case env_MARK_SEEN W of None \<Rightarrow> ''0'' | Some v \<Rightarrow> v) = ''1'')"

text \<open>
  \<open>main\<close>. An exception that leaves it is returned with the requests made before it;
  nothing is written then.
\<close>

definition main :: "pylib \<Rightarrow> world \<Rightarrow> (pyexn \<times> string list) + run" where
  "main L W =
     (case load_sources W of
        Inl e \<Rightarrow> Inl (e, [])
      | Inr sources \<Rightarrow>
          (case load_seen W of
             Inl e \<Rightarrow> Inl (e, [])
           | Inr seen0 \<Rightarrow>
               (case source_loop L W (min_score_of W) (mark_seen_of W) sources
                       \<lparr>seen = seen0, all_items = [], errors = [], requests = []\<rparr> of
                  Inl (e, st) \<Rightarrow> Inl (e, requests st)
                | Inr st \<Rightarrow>
                    Inr \<lparr>digest = rank L (all_items st), state_file = save_seen (seen st),
                         report = errors st, trace = requests st\<rparr>)))"

section \<open>Derived notions used to state the properties\<close>

text \<open>The score of an item, the dictionary \<open>main\<close> builds for it, and the items the
  sources deliver in the order \<open>main\<close> visits them.\<close>

definition item_score :: "item \<Rightarrow> rat" where
  "item_score it = fst (score_item (item_text it))"

definition scored_of :: "source_cfg \<Rightarrow> item \<Rightarrow> pyexn + scored_item" where
  "scored_of s it =
     (case score_item (item_text it) of (sc, hs) \<Rightarrow> make_scored s it (item_id it) sc hs)"

definition delivered :: "pylib \<Rightarrow> world \<Rightarrow> source_cfg list \<Rightarrow> (source_cfg \<times> item) list" where
  "delivered L W ss =
     concat (map (\<lambda>s. case fetch_source L W s of Inl e \<Rightarrow> [] | Inr its \<Rightarrow> map (Pair s) its) ss)"

definition succeeds :: "pylib \<Rightarrow> world \<Rightarrow> source_cfg \<Rightarrow> bool" where
  "succeeds L W s = (case fetch_source L W s of Inl e \<Rightarrow> False | Inr its \<Rightarrow> True)"

text \<open>The line the handler appends for a source, if its adapter raises.\<close>

definition failure_line :: "pylib \<Rightarrow> world \<Rightarrow> source_cfg \<Rightarrow> string list" where
  "failure_line L W s =
     (case fetch_source L W s of
        Inl e \<Rightarrow> [(case src_name s of None \<Rightarrow> [] | Some n \<Rightarrow> n) @ '': '' @ exn_str e]
      | Inr its \<Rightarrow> [])"

text \<open>
  \<open>visits\<close> relates the state before and after the loops have gone through the
  delivered items \<open>D\<close> without an exception: some list \<open>new\<close> was appended to
  \<open>all_items\<close>; the identifiers of \<open>new\<close> were added to \<open>seen\<close> if the run marks;
  every appended item reaches the threshold, was unseen before, and is the dictionary
  of a delivered item; and every delivered item that was unseen before and reaches the
  threshold has its identifier in \<open>new\<close> (is itself in \<open>new\<close> if the run does not mark).
\<close>

definition visits ::
  "rat \<Rightarrow> bool \<Rightarrow> (source_cfg \<times> item) list \<Rightarrow> run_state \<Rightarrow> run_state \<Rightarrow> bool" where
  "visits ms mk D st st' =
     (\<exists>new. all_items st' = all_items st @ new \<and>
        seen st' = (if mk then seen st \<union> sid ` set new else seen st) \<and>
        (\<forall>x\<in>set new. \<not> below_threshold (score x) ms \<and> sid x \<notin> seen st \<and>
           (\<exists>p\<in>set D. scored_of (fst p) (snd p) = Inr x)) \<and>
        (\<forall>p\<in>set D. item_id (snd p) \<notin> seen st \<longrightarrow>
           \<not> below_threshold (item_score (snd p)) ms \<longrightarrow>
           (\<exists>x\<in>set new. sid x = item_id (snd p) \<and>
              (\<not> mk \<longrightarrow> scored_of (fst p) (snd p) = Inr x))))"

text \<open>The order of the output: a higher score first, and for equal scores the later
  \<open>pub_key\<close> first or the same.\<close>

definition ranked_before :: "pylib \<Rightarrow> scored_item \<Rightarrow> scored_item \<Rightarrow> bool" where
  "ranked_before L a b =
     (score b < score a \<or> (score a = score b \<and> pub_key L (published b) \<le> pub_key L (published a)))"

section \<open>Library functions for closed examples\<close>

text \<open>
  Closed examples need the library parameters filled in. \<open>url_netloc\<close> follows
  \<open>urllib.parse.urlsplit\<close>: a scheme is split off at the first colon when the text
  before it is a letter followed by scheme characters, the network location is what
  follows \<open>//\<close> up to the next \<open>/\<close>, \<open>?\<close> or \<open>#\<close>, and an unbalanced bracket in
  it raises.
\<close>

definition is_alpha :: "char \<Rightarrow> bool" where
  "is_alpha c = (let n = of_char c :: nat in (65 \<le> n \<and> n \<le> 90) \<or> (97 \<le> n \<and> n \<le> 122))"

definition is_scheme_char :: "char \<Rightarrow> bool" where
  "is_scheme_char c =
     (let n = of_char c :: nat in is_alpha c \<or> (48 \<le> n \<and> n \<le> 57) \<or> c \<in> set ''+-.'')"

definition split_scheme :: "string \<Rightarrow> string \<times> string" where
  "split_scheme u =
     (let pre = takeWhile (\<lambda>c. c \<noteq> CHR '':'') u;
          post = dropWhile (\<lambda>c. c \<noteq> CHR '':'') u
      in if post \<noteq> [] \<and> pre \<noteq> [] \<and> is_alpha (hd pre) \<and> list_all is_scheme_char pre
         then (lower pre, tl post) else ([], u))"

definition url_netloc :: "string \<Rightarrow> pyexn + string" where
  "url_netloc u =
     (let rest = snd (split_scheme u)
      in if startswith rest ''//''
         then (let n = takeWhile (\<lambda>c. c \<notin> set ''/?#'') (drop 2 rest)
               in if (CHR ''['' \<in> set n) \<noteq> (CHR '']'' \<in> set n)
                  then Inl (Raised ''Invalid IPv6 URL'') else Inr n)
         else Inr [])"

text \<open>
  \<open>url_join\<close> covers the references of the examples: an empty reference, one with a
  scheme of its own, and one whose path starts with \<open>/\<close>; any other reference is
  appended to the directory of the base path.
\<close>

definition url_root :: "string \<Rightarrow> string" where
  "url_root b =
     fst (split_scheme b) @ ''://'' @
       takeWhile (\<lambda>c. c \<notin> set ''/?#'') (drop 2 (snd (split_scheme b)))"

definition url_dir :: "string \<Rightarrow> string" where
  "url_dir b =
     (let p = takeWhile (\<lambda>c. c \<notin> set ''?#'')
                (dropWhile (\<lambda>c. c \<notin> set ''/?#'') (drop 2 (snd (split_scheme b))))
      in rev (dropWhile (\<lambda>c. c \<noteq> CHR ''/'') (rev p)))"

definition url_join :: "string \<Rightarrow> string \<Rightarrow> pyexn + string" where
  "url_join b h =
     (if h = [] then Inr b
      else if fst (split_scheme h) \<noteq> [] then Inr h
      else if startswith h ''//'' then Inr (fst (split_scheme b) @ '':'' @ h)
      else if startswith h ''/'' then Inr (url_root b @ h)
      else Inr (url_root b @ (if url_dir b = [] then ''/'' else url_dir b) @ h))"

text \<open>
  \<open>iso_utc\<close> reads the strings \<open>parse_rss\<close> writes, \<open>YYYY-MM-DDTHH:MM:SS+00:00\<close>, as
  \<open>datetime.fromisoformat\<close> does, and gives the instant in microseconds since the
  epoch; the empty string, which a listing item carries, does not parse.
\<close>

definition digit_val :: "char \<Rightarrow> nat option" where
  "digit_val c =
     (let n = of_char c :: nat in if 48 \<le> n \<and> n \<le> 57 then Some (n - 48) else None)"

fun digits_val :: "nat \<Rightarrow> string \<Rightarrow> nat option" where
  "digits_val acc [] = Some acc"
| "digits_val acc (c # cs) =
     (case digit_val c of None \<Rightarrow> None | Some d \<Rightarrow> digits_val (10 * acc + d) cs)"

definition is_leap :: "nat \<Rightarrow> bool" where
  "is_leap y = (y mod 4 = 0 \<and> (y mod 100 \<noteq> 0 \<or> y mod 400 = 0))"

definition days_in_month :: "nat \<Rightarrow> nat \<Rightarrow> nat" where
  "days_in_month y m =
     (if m = 2 then (if is_leap y then 29 else 28)
      else if m \<in> {4, 6, 9, 11} then 30 else 31)"

definition days_from_civil :: "nat \<Rightarrow> nat \<Rightarrow> nat \<Rightarrow> int" where
  "days_from_civil y m d =
     (let y1 = (if m \<le> 2 then int y - 1 else int y);
          era = y1 div 400;
          yoe = y1 - era * 400;
          mp = (int m + 9) mod 12;
          doy = (153 * mp + 2) div 5 + int d - 1;
          doe = yoe * 365 + yoe div 4 - yoe div 100 + doy
      in era * 146097 + doe - 719468)"

definition iso_utc :: "string \<Rightarrow> int option" where
  "iso_utc s =
     (if length s = 25 \<and> s ! 4 = CHR ''-'' \<and> s ! 7 = CHR ''-'' \<and> s ! 10 = CHR ''T'' \<and>
         s ! 13 = CHR '':'' \<and> s ! 16 = CHR '':'' \<and> drop 19 s = ''+00:00''
      then
        (case (digits_val 0 (take 4 s), digits_val 0 (take 2 (drop 5 s)),
               digits_val 0 (take 2 (drop 8 s)), digits_val 0 (take 2 (drop 11 s)),
               digits_val 0 (take 2 (drop 14 s)), digits_val 0 (take 2 (drop 17 s))) of
           (Some y, Some m, Some d, Some hh, Some mm, Some ss) \<Rightarrow>
             if 1 \<le> y \<and> 1 \<le> m \<and> m \<le> 12 \<and> 1 \<le> d \<and> d \<le> days_in_month y m \<and>
                hh < 24 \<and> mm < 60 \<and> ss < 60
             then Some ((((days_from_civil y m d * 24 + int hh) * 60 + int mm) * 60 + int ss)
                        * 1000000)
             else None
         | _ \<Rightarrow> None)
      else None)"

definition stdlib :: pylib where
  "stdlib = \<lparr>fromisoformat = iso_utc, urljoin = url_join, netloc = url_netloc\<rparr>"

section \<open>Example data\<close>

text \<open>
  A feed with two entries, a listing page with four links, and a site that is down.
  The closed instances of the theorems below are stated on them.
\<close>

definition feed_src :: source_cfg where
  "feed_src =
     \<lparr>src_name = Some ''Trade Feed'', src_rss = Some ''https://feeds.example.com/awards.xml'',
      src_url = None, src_type = Some ''trade'', src_affects_nom = Some True,
      src_affects_win = Some False\<rparr>"

definition office_src :: source_cfg where
  "office_src =
     \<lparr>src_name = Some ''Box Office'', src_rss = Some ''https://feeds.example.com/boxoffice.xml'',
      src_url = None, src_type = Some ''trade'', src_affects_nom = Some False,
      src_affects_win = Some False\<rparr>"

definition archive_src :: source_cfg where
  "archive_src =
     \<lparr>src_name = Some ''Archive'', src_rss = Some ''https://feeds.example.com/archive.xml'',
      src_url = None, src_type = Some ''trade'', src_affects_nom = Some False,
      src_affects_win = Some False\<rparr>"

definition recent_src :: source_cfg where
  "recent_src =
     \<lparr>src_name = Some ''Recent'', src_rss = Some ''https://feeds.example.com/recent.xml'',
      src_url = None, src_type = Some ''trade'', src_affects_nom = Some True,
      src_affects_win = Some False\<rparr>"

definition down_src :: source_cfg where
  "down_src =
     \<lparr>src_name = Some ''Down Site'', src_rss = None,
      src_url = Some ''https://down.example.org/'', src_type = Some ''critic'',
      src_affects_nom = Some False, src_affects_win = Some False\<rparr>"

definition list_src :: source_cfg where
  "list_src =
     \<lparr>src_name = Some ''Studio News'', src_rss = Some [],
      src_url = Some ''https://example.com/news'', src_type = Some ''studio'',
      src_affects_nom = Some True, src_affects_win = Some True\<rparr>"

definition example_feeds :: "string \<Rightarrow> pyexn + entry list" where
  "example_feeds u =
     (if u = ''https://feeds.example.com/awards.xml''
      then Inr [\<lparr>e_title = ''Oscars 2024: nominations announced'',
                 e_link = '' https://feeds.example.com/a1 '',
                 e_summary = ''Full list of nominees'',
                 e_published = ''2024-01-23T13:30:00+00:00''\<rparr>,
                \<lparr>e_title = ''Weekend box office report'',
                 e_link = ''https://feeds.example.com/a2'',
                 e_summary = [],
                 e_published = ''2024-01-21T09:00:00+00:00''\<rparr>]
      else if u = ''https://feeds.example.com/boxoffice.xml''
      then Inr [\<lparr>e_title = ''Weekend box office report'',
                 e_link = ''https://feeds.example.com/a2'',
                 e_summary = [],
                 e_published = ''2024-01-21T09:00:00+00:00''\<rparr>]
      else if u = ''https://feeds.example.com/recent.xml''
      then Inr [\<lparr>e_title = ''Oscars 2024: nominations announced'',
                 e_link = ''https://feeds.example.com/a1'',
                 e_summary = [],
                 e_published = ''2024-01-23T13:30:00+00:00''\<rparr>]
      else if u = ''https://feeds.example.com/archive.xml''
      then Inr [\<lparr>e_title = ''Oscars 1969: nominations announced'',
                 e_link = ''https://feeds.example.com/old'',
                 e_summary = [],
                 e_published = ''1969-07-20T20:17:40+00:00''\<rparr>]
      else Inr [])"

definition example_pages :: "string \<Rightarrow> pyexn + anchor list" where
  "example_pages u =
     (if u = ''https://example.com/news''
      then Inr [\<lparr>a_href = ''/awards/golden-globes-winners'',
                 a_text = ''Golden Globes winners:  the complete list'',
                 a_para = Some ''Who won at the Golden Globes''\<rparr>,
                \<lparr>a_href = ''https://other.com/article'',
                 a_text = ''Oscar nominations: what to expect this year'',
                 a_para = None\<rparr>,
                \<lparr>a_href = ''/about/awards-team'',
                 a_text = ''About our awards coverage team'',
                 a_para = None\<rparr>,
                \<lparr>a_href = ''/contact'', a_text = ''Contact'', a_para = None\<rparr>]
      else Inl (Raised ''503 Server Error: Service Unavailable''))"

definition golden_item :: item where
  "golden_item =
     \<lparr>title = ''Golden Globes winners: the complete list'',
      url = ''https://example.com/awards/golden-globes-winners'',
      summary = ''Who won at the Golden Globes'', published = []\<rparr>"

definition oscars_item :: item where
  "oscars_item =
     \<lparr>title = ''Oscars 2024: nominations announced'', url = ''https://feeds.example.com/a1'',
      summary = ''Full list of nominees'', published = ''2024-01-23T13:30:00+00:00''\<rparr>"

definition office_item :: item where
  "office_item =
     \<lparr>title = ''Weekend box office report'', url = ''https://feeds.example.com/a2'',
      summary = [], published = ''2024-01-21T09:00:00+00:00''\<rparr>"

definition example_world :: world where
  "example_world =
     \<lparr>sources_json = Inr [feed_src, down_src, list_src], state_seen_json = Absent,
      env_MIN_SCORE = None, env_MARK_SEEN = None,
      feeds = example_feeds, pages = example_pages\<rparr>"

text \<open>The dictionaries \<open>main\<close> builds for the items that reach the threshold.\<close>

definition old_item :: item where
  "old_item =
     \<lparr>title = ''Oscars 1969: nominations announced'', url = ''https://feeds.example.com/old'',
      summary = [], published = ''1969-07-20T20:17:40+00:00''\<rparr>"

definition recent_item :: item where
  "recent_item =
     \<lparr>title = ''Oscars 2024: nominations announced'', url = ''https://feeds.example.com/a1'',
      summary = [], published = ''2024-01-23T13:30:00+00:00''\<rparr>"

definition recent_scored :: scored_item where
  "recent_scored =
     \<lparr>title = ''Oscars 2024: nominations announced'', url = ''https://feeds.example.com/a1'',
      summary = [], published = ''2024-01-23T13:30:00+00:00'',
      sid = item_id recent_item, score = 4.6,
      hits = [''oscar'', ''oscars'', ''nomination'', ''nominations''],
      source = ''Recent'', stype = ''trade'', affects_nom = True, affects_win = False\<rparr>"

definition oscars_scored :: scored_item where
  "oscars_scored =
     \<lparr>title = ''Oscars 2024: nominations announced'', url = ''https://feeds.example.com/a1'',
      summary = ''Full list of nominees'', published = ''2024-01-23T13:30:00+00:00'',
      sid = item_id oscars_item, score = 7.2,
      hits = [''oscar'', ''oscars'', ''nominee'', ''nominees'', ''nomination'', ''nominations''],
      source = ''Trade Feed'', stype = ''trade'', affects_nom = True, affects_win = False\<rparr>"

definition golden_scored :: scored_item where
  "golden_scored =
     \<lparr>title = ''Golden Globes winners: the complete list'',
      url = ''https://example.com/awards/golden-globes-winners'',
      summary = ''Who won at the Golden Globes'', published = [],
      sid = item_id golden_item, score = 4.6,
      hits = [''golden globe'', ''golden globes'', ''winner'', ''winners''],
      source = ''Studio News'', stype = ''studio'', affects_nom = True, affects_win = True\<rparr>"

definition old_scored :: scored_item where
  "old_scored =
     \<lparr>title = ''Oscars 1969: nominations announced'', url = ''https://feeds.example.com/old'',
      summary = [], published = ''1969-07-20T20:17:40+00:00'',
      sid = item_id old_item, score = 4.6,
      hits = [''oscar'', ''oscars'', ''nomination'', ''nominations''],
      source = ''Archive'', stype = ''trade'', affects_nom = False, affects_win = False\<rparr>"

definition down_line :: string where
  "down_line = ''Down Site: 503 Server Error: Service Unavailable''"

text \<open>
  Four starts: the three sources with the default settings; a marking run with
  threshold 4; the archive feed before the listing; and the listing before a recent
  feed. Below them, what the runs leave.
\<close>

definition mark_world :: world where
  "mark_world =
     \<lparr>sources_json = Inr [office_src, down_src, list_src], state_seen_json = Absent,
      env_MIN_SCORE = Some 4, env_MARK_SEEN = Some ''1'',
      feeds = example_feeds, pages = example_pages\<rparr>"

definition old_world :: world where
  "old_world =
     \<lparr>sources_json = Inr [archive_src, list_src], state_seen_json = Absent,
      env_MIN_SCORE = None, env_MARK_SEEN = None,
      feeds = example_feeds, pages = example_pages\<rparr>"

definition tie_world :: world where
  "tie_world =
     \<lparr>sources_json = Inr [list_src, recent_src], state_seen_json = Absent,
      env_MIN_SCORE = None, env_MARK_SEEN = None,
      feeds = example_feeds, pages = example_pages\<rparr>"


definition mark_run :: run where
  "mark_run =
     \<lparr>digest = [golden_scored], state_file = Stored [item_id golden_item],
      report = [down_line],
      trace = [''https://feeds.example.com/boxoffice.xml'', ''https://down.example.org/'',
               ''https://example.com/news'']\<rparr>"

definition old_run :: run where
  "old_run =
     \<lparr>digest = [golden_scored, old_scored], state_file = Stored [],
      report = [],
      trace = [''https://feeds.example.com/archive.xml'', ''https://example.com/news'']\<rparr>"

definition tie_run :: run where
  "tie_run =
     \<lparr>digest = [recent_scored, golden_scored], state_file = Stored [],
      report = [],
      trace = [''https://example.com/news'', ''https://feeds.example.com/recent.xml'']\<rparr>"

definition long_text :: string where
  "long_text = ''Oscar nominees shortlist: Bafta and Emmy winners at Cannes, Venice, Berlin, Sundance, Telluride, TIFF, SAG, DGA''"

section \<open>Lemmas about the classifier, the identifier and the listing adapter\<close>

lemma award_fold:
  "fold (award_step t) kws (sc, hs) =
     (sc + of_nat (length (filter (\<lambda>kw. contains kw t) kws)),
      hs @ filter (\<lambda>kw. contains kw t) kws)"
  by (induction kws arbitrary: sc hs) (simp_all add: award_step_def algebra_simps)

lemma dict_fromkeys_distinct:
  "distinct (acc @ ks) \<Longrightarrow> dict_fromkeys acc ks = acc @ ks"
  by (induction acc ks rule: dict_fromkeys.induct) auto

lemma distinct_AWARD_TERMS: "distinct AWARD_TERMS"
  by (simp add: AWARD_TERMS_def)

lemma score_item_hits:
  "snd (score_item text) = take 10 (filter (\<lambda>kw. contains kw (lower text)) AWARD_TERMS)"
proof -
  have "distinct (filter (\<lambda>kw. contains kw (lower text)) AWARD_TERMS)"
    using distinct_AWARD_TERMS by (rule distinct_filter)
  then have "dict_fromkeys [] (filter (\<lambda>kw. contains kw (lower text)) AWARD_TERMS) =
      filter (\<lambda>kw. contains kw (lower text)) AWARD_TERMS"
    using dict_fromkeys_distinct [of "[]"] by simp
  then show ?thesis
    by (simp add: score_item_def award_fold Let_def)
qed

lemma score_item_score:
  "0 \<le> fst (score_item text) \<and> fst (score_item text) \<le> 10"
  by (simp add: score_item_def Let_def split_beta)

text \<open>
  The digest has eight words whatever the message is, so its hexadecimal form has 64
  characters.
\<close>

lemma length_round256: "length (round256 kw s) = length s"
  by (simp add: round256_def Let_def split: list.splits)

lemma length_fold_round256: "length (fold round256 kws s) = length s"
  by (induction kws arbitrary: s) (simp_all add: length_round256)

lemma length_compress: "length (compress b h) = length h"
  by (simp add: compress_def length_fold_round256)

lemma length_sha_blocks: "length (sha_blocks n ws h) = length h"
  by (induction n ws h rule: sha_blocks.induct) (simp_all add: length_compress)

lemma eight_primes: "8 \<le> length first_primes"
proof -
  have "list_all is_prime [2, 3, 5, 7, 11, 13, 17, 19]"
    by code_simp
  then have "set [2, 3, 5, 7, 11, 13, 17, 19] \<subseteq> set first_primes"
    by (auto simp: first_primes_def)
  then have "card (set [2, 3, 5, 7, 11, 13, 17, 19 :: nat]) \<le> card (set first_primes)"
    by (intro card_mono) simp_all
  moreover have "card (set [2, 3, 5, 7, 11, 13, 17, 19 :: nat]) = 8"
    by simp
  moreover have "card (set first_primes) \<le> length first_primes"
    by (rule card_length)
  ultimately show ?thesis by simp
qed

lemma length_sha256: "length (sha256 msg) = 8"
  using eight_primes by (simp add: sha256_def Let_def length_sha_blocks H256_def)

lemma length_hexdigest: "length (hexdigest h) = 8 * length h"
  by (induction h) (simp_all add: hexdigest_def hex_word_def)

lemma listing_loop_ok:
  "listing_loop L p h as = Inr found \<Longrightarrow> it \<in> set found \<Longrightarrow>
     netloc L (url it) = Inr h \<and> \<not> list_ex (\<lambda>b. contains b (lower (url it))) bad \<and>
     startswith (url it) ''http'' \<and> 18 \<le> length (title it)"
proof (induction as arbitrary: found)
  case Nil
  then show ?case by simp
next
  case (Cons a as)
  then show ?case
    by (auto simp: Let_def split: if_splits sum.splits)
qed

lemma dedupe_url_subset: "set (dedupe_url S xs) \<subseteq> set xs"
  by (induction S xs rule: dedupe_url.induct) auto

section \<open>Lemmas about the loops of \<open>main\<close>\<close>

lemma make_scored_fields:
  "make_scored s it i sc hs = Inr x \<Longrightarrow>
     sid x = i \<and> score x = sc \<and> hits x = hs \<and> title x = title it \<and> url x = url it \<and>
     summary x = summary it \<and> published x = published it \<and> src_name s = Some (source x)"
  by (auto simp: make_scored_def split: option.splits)

lemma scored_of_fields:
  "scored_of s it = Inr x \<Longrightarrow>
     sid x = item_id it \<and> score x = item_score it \<and> published x = published it \<and>
     title x = title it \<and> url x = url it \<and> src_name s = Some (source x)"
  by (auto simp: scored_of_def item_score_def split: prod.splits dest: make_scored_fields)

lemma visits_refl: "visits ms mk [] st st"
  by (simp add: visits_def)

lemma visits_cong:
  "all_items a' = all_items a \<Longrightarrow> seen a' = seen a \<Longrightarrow> all_items b' = all_items b \<Longrightarrow>
   seen b' = seen b \<Longrightarrow> visits ms mk D a b \<Longrightarrow> visits ms mk D a' b'"
  by (simp only: visits_def)

lemma visits_trans:
  assumes 1: "visits ms mk D1 st st1" and 2: "visits ms mk D2 st1 st2"
  shows "visits ms mk (D1 @ D2) st st2"
proof -
  from 1 obtain n1 where
    a1: "all_items st1 = all_items st @ n1"
    and s1: "seen st1 = (if mk then seen st \<union> sid ` set n1 else seen st)"
    and snd1: "\<forall>x\<in>set n1. \<not> below_threshold (score x) ms \<and> sid x \<notin> seen st \<and>
           (\<exists>p\<in>set D1. scored_of (fst p) (snd p) = Inr x)"
    and cmp1: "\<forall>p\<in>set D1. item_id (snd p) \<notin> seen st \<longrightarrow>
           \<not> below_threshold (item_score (snd p)) ms \<longrightarrow>
           (\<exists>x\<in>set n1. sid x = item_id (snd p) \<and> (\<not> mk \<longrightarrow> scored_of (fst p) (snd p) = Inr x))"
    unfolding visits_def by blast
  from 2 obtain n2 where
    a2: "all_items st2 = all_items st1 @ n2"
    and s2: "seen st2 = (if mk then seen st1 \<union> sid ` set n2 else seen st1)"
    and snd2: "\<forall>x\<in>set n2. \<not> below_threshold (score x) ms \<and> sid x \<notin> seen st1 \<and>
           (\<exists>p\<in>set D2. scored_of (fst p) (snd p) = Inr x)"
    and cmp2: "\<forall>p\<in>set D2. item_id (snd p) \<notin> seen st1 \<longrightarrow>
           \<not> below_threshold (item_score (snd p)) ms \<longrightarrow>
           (\<exists>x\<in>set n2. sid x = item_id (snd p) \<and> (\<not> mk \<longrightarrow> scored_of (fst p) (snd p) = Inr x))"
    unfolding visits_def by blast
  have sub: "seen st \<subseteq> seen st1" using s1 by auto
  have A: "all_items st2 = all_items st @ (n1 @ n2)" using a1 a2 by simp
  have S: "seen st2 = (if mk then seen st \<union> sid ` set (n1 @ n2) else seen st)"
    using s1 s2 by auto
  have SND: "\<forall>x\<in>set (n1 @ n2). \<not> below_threshold (score x) ms \<and> sid x \<notin> seen st \<and>
           (\<exists>p\<in>set (D1 @ D2). scored_of (fst p) (snd p) = Inr x)"
  proof
    fix x assume "x \<in> set (n1 @ n2)"
    then consider "x \<in> set n1" | "x \<in> set n2" by auto
    then show "\<not> below_threshold (score x) ms \<and> sid x \<notin> seen st \<and>
           (\<exists>p\<in>set (D1 @ D2). scored_of (fst p) (snd p) = Inr x)"
    proof cases
      case 1 with snd1 show ?thesis by auto
    next
      case 2 with snd2 sub show ?thesis by auto
    qed
  qed
  have CMP: "\<forall>p\<in>set (D1 @ D2). item_id (snd p) \<notin> seen st \<longrightarrow>
           \<not> below_threshold (item_score (snd p)) ms \<longrightarrow>
           (\<exists>x\<in>set (n1 @ n2). sid x = item_id (snd p) \<and>
              (\<not> mk \<longrightarrow> scored_of (fst p) (snd p) = Inr x))"
  proof (intro ballI impI)
    fix p assume p: "p \<in> set (D1 @ D2)" and u: "item_id (snd p) \<notin> seen st"
      and b: "\<not> below_threshold (item_score (snd p)) ms"
    from p consider "p \<in> set D1" | "p \<in> set D2" by auto
    then show "\<exists>x\<in>set (n1 @ n2). sid x = item_id (snd p) \<and>
              (\<not> mk \<longrightarrow> scored_of (fst p) (snd p) = Inr x)"
    proof cases
      case 1 with cmp1 u b show ?thesis by auto
    next
      case 2
      show ?thesis
      proof (cases "item_id (snd p) \<in> seen st1")
        case True
        with u s1 have "mk \<and> item_id (snd p) \<in> sid ` set n1" by (auto split: if_splits)
        then show ?thesis by auto
      next
        case False
        with cmp2 2 b show ?thesis by auto
      qed
    qed
  qed
  show ?thesis unfolding visits_def using A S SND CMP by blast
qed

lemma visits_skip:
  "item_id it \<in> seen st \<or> below_threshold (item_score it) ms \<Longrightarrow> visits ms mk [(s, it)] st st"
  by (auto simp: visits_def)

lemma visits_take:
  assumes "scored_of s it = Inr x" "item_id it \<notin> seen st" "\<not> below_threshold (item_score it) ms"
  shows "visits ms mk [(s, it)] st
           (st\<lparr>all_items := all_items st @ [x],
               seen := (if mk then insert (item_id it) (seen st) else seen st)\<rparr>)"
  using assms scored_of_fields [OF assms(1)] by (auto simp: visits_def)

lemma item_loop_visits:
  "item_loop ms mk s its st = Inr st' \<Longrightarrow>
     visits ms mk (map (Pair s) its) st st' \<and> errors st' = errors st \<and> requests st' = requests st"
proof (induction its arbitrary: st)
  case Nil
  then show ?case by (simp add: visits_refl)
next
  case (Cons it its)
  show ?case
  proof (cases "item_id it \<in> seen st \<or> below_threshold (item_score it) ms")
    case True
    then have "item_loop ms mk s its st = Inr st'"
      using Cons.prems by (auto simp: item_score_def split: prod.splits if_splits)
    from Cons.IH [OF this] visits_skip [OF True, of mk s]
    show ?thesis using visits_trans [of ms mk "[(s, it)]" st st "map (Pair s) its" st'] by simp
  next
    case False
    then obtain x where x: "scored_of s it = Inr x"
      and r: "item_loop ms mk s its
                (st\<lparr>all_items := all_items st @ [x],
                    seen := (if mk then insert (item_id it) (seen st) else seen st)\<rparr>) = Inr st'"
      using Cons.prems
      by (auto simp: item_score_def scored_of_def split: prod.splits sum.splits)
    from False have u: "item_id it \<notin> seen st" and b: "\<not> below_threshold (item_score it) ms"
      by auto
    from Cons.IH [OF r] visits_take [OF x u b, of mk]
    show ?thesis
      using visits_trans [of ms mk "[(s, it)]" st _ "map (Pair s) its" st'] by simp
  qed
qed

lemma delivered_Cons:
  "delivered L W (s # ss) =
     (case fetch_source L W s of Inl e \<Rightarrow> [] | Inr its \<Rightarrow> map (Pair s) its) @ delivered L W ss"
  by (simp add: delivered_def)

lemma source_loop_visits:
  "source_loop L W ms mk ss st = Inr st' \<Longrightarrow>
     visits ms mk (delivered L W ss) st st' \<and>
     errors st' = errors st @ concat (map (failure_line L W) ss) \<and>
     requests st' = requests st @ concat (map request_of ss) \<and>
     (\<forall>s\<in>set ss. \<not> succeeds L W s \<longrightarrow> src_name s \<noteq> None)"
proof (induction ss arbitrary: st)
  case Nil
  then show ?case by (simp add: visits_refl delivered_def)
next
  case (Cons s ss)
  let ?st1 = "st\<lparr>requests := requests st @ request_of s\<rparr>"
  show ?case
  proof (cases "fetch_source L W s")
    case (Inl e)
    with Cons.prems obtain n where n: "src_name s = Some n"
      and r: "source_loop L W ms mk ss (?st1\<lparr>errors := errors ?st1 @ [n @ '': '' @ exn_str e]\<rparr>) = Inr st'"
      by (auto simp: Let_def split: option.splits)
    from Cons.IH [OF r] have
      v: "visits ms mk (delivered L W ss) (?st1\<lparr>errors := errors ?st1 @ [n @ '': '' @ exn_str e]\<rparr>) st'"
      and rest: "errors st' = errors st @ [n @ '': '' @ exn_str e] @ concat (map (failure_line L W) ss)"
        "requests st' = requests st @ request_of s @ concat (map request_of ss)"
        "\<forall>s\<in>set ss. \<not> succeeds L W s \<longrightarrow> src_name s \<noteq> None"
      by simp_all
    from v have "visits ms mk (delivered L W ss) st st'"
      by (rule visits_cong [rotated 4]) simp_all
    moreover have "failure_line L W s = [n @ '': '' @ exn_str e]"
      using Inl n by (simp add: failure_line_def)
    ultimately show ?thesis using rest Inl n
      by (simp add: delivered_Cons)
  next
    case (Inr its)
    with Cons.prems obtain st2 where i: "item_loop ms mk s its ?st1 = Inr st2"
      and r: "source_loop L W ms mk ss st2 = Inr st'"
      by (auto simp: Let_def split: sum.splits)
    from item_loop_visits [OF i] have v1: "visits ms mk (map (Pair s) its) ?st1 st2"
      and e2: "errors st2 = errors st" "requests st2 = requests st @ request_of s"
      by simp_all
    from v1 have v1': "visits ms mk (map (Pair s) its) st st2"
      by (rule visits_cong [rotated 4]) simp_all
    from Cons.IH [OF r] e2 have
      v2: "visits ms mk (delivered L W ss) st2 st'"
      and rest: "errors st' = errors st @ concat (map (failure_line L W) ss)"
        "requests st' = requests st @ request_of s @ concat (map request_of ss)"
        "\<forall>s\<in>set ss. \<not> succeeds L W s \<longrightarrow> src_name s \<noteq> None"
      by simp_all
    have "failure_line L W s = []" "succeeds L W s"
      using Inr by (simp_all add: failure_line_def succeeds_def)
    with visits_trans [OF v1' v2] rest Inr show ?thesis
      by (simp add: delivered_Cons)
  qed
qed

lemma visits_finite:
  "visits ms mk D st st' \<Longrightarrow> finite (seen st) \<Longrightarrow> finite (seen st')"
  by (auto simp: visits_def split: if_splits)

lemma visits_marked:
  assumes "visits ms True D st st'" and "p \<in> set D"
  shows "item_id (snd p) \<in> seen st' \<or> below_threshold (item_score (snd p)) ms"
proof -
  from assms(1) obtain new where
    s0: "seen st' = (if True then seen st \<union> sid ` set new else seen st)"
    and c0: "\<forall>p\<in>set D. item_id (snd p) \<notin> seen st \<longrightarrow>
           \<not> below_threshold (item_score (snd p)) ms \<longrightarrow>
           (\<exists>x\<in>set new. sid x = item_id (snd p) \<and>
              (\<not> True \<longrightarrow> scored_of (fst p) (snd p) = Inr x))"
    unfolding visits_def by blast
  from s0 have s: "seen st' = seen st \<union> sid ` set new" by simp
  show ?thesis
  proof (cases "item_id (snd p) \<in> seen st")
    case True
    with s show ?thesis by simp
  next
    case False
    show ?thesis
    proof (cases "below_threshold (item_score (snd p)) ms")
      case True
      then show ?thesis by simp
    next
      case nb: False
      from c0 assms(2) False nb obtain x where "x \<in> set new" "sid x = item_id (snd p)"
        by blast
      then have "item_id (snd p) \<in> sid ` set new" by (metis imageI)
      with s show ?thesis by simp
    qed
  qed
qed


lemma item_loop_all_skipped:
  "\<forall>it\<in>set its. item_id it \<in> seen st \<or> below_threshold (item_score it) ms \<Longrightarrow>
     item_loop ms mk s its st = Inr st"
  by (induction its) (auto simp: item_score_def split: prod.splits)

lemma fetch_source_state_upd [simp]:
  "fetch_source L (W\<lparr>state_seen_json := f\<rparr>) s = fetch_source L W s"
  by (simp add: fetch_source_def parse_rss_def parse_listing_def split: option.splits)

lemma fetch_source_sources_upd [simp]:
  "fetch_source L (W\<lparr>sources_json := f\<rparr>) s = fetch_source L W s"
  by (simp add: fetch_source_def parse_rss_def parse_listing_def split: option.splits)

lemma source_loop_cong:
  "(\<And>s. fetch_source L W' s = fetch_source L W s) \<Longrightarrow>
     source_loop L W' ms mk ss st = source_loop L W ms mk ss st"
  by (induction ss arbitrary: st) (simp_all add: Let_def split: sum.splits option.splits)

lemma source_loop_all_skipped:
  assumes "\<forall>p\<in>set (delivered L W ss).
             item_id (snd p) \<in> S \<or> below_threshold (item_score (snd p)) ms"
    and "\<forall>s\<in>set ss. \<not> succeeds L W s \<longrightarrow> src_name s \<noteq> None"
  shows "source_loop L W ms mk ss \<lparr>seen = S, all_items = A, errors = e, requests = q\<rparr> =
           Inr \<lparr>seen = S, all_items = A, errors = e @ concat (map (failure_line L W) ss),
                requests = q @ concat (map request_of ss)\<rparr>"
  using assms
proof (induction ss arbitrary: e q)
  case Nil
  then show ?case by simp
next
  case (Cons s ss)
  show ?case
  proof (cases "fetch_source L W s")
    case (Inl x)
    with Cons.prems(2) obtain n where n: "src_name s = Some n"
      by (auto simp: succeeds_def)
    have fl: "failure_line L W s = [n @ '': '' @ exn_str x]"
      using Inl n by (simp add: failure_line_def)
    have "source_loop L W ms mk ss
            \<lparr>seen = S, all_items = A, errors = e @ [n @ '': '' @ exn_str x],
             requests = q @ request_of s\<rparr> =
          Inr \<lparr>seen = S, all_items = A,
               errors = (e @ [n @ '': '' @ exn_str x]) @ concat (map (failure_line L W) ss),
               requests = (q @ request_of s) @ concat (map request_of ss)\<rparr>"
      using Cons.prems Inl by (intro Cons.IH) (simp_all add: delivered_Cons)
    then show ?thesis using Inl n fl by (simp add: Let_def)
  next
    case (Inr its)
    have fl: "failure_line L W s = []" using Inr by (simp add: failure_line_def)
    have sk: "\<forall>it\<in>set its.
        item_id it \<in> seen \<lparr>seen = S, all_items = A, errors = e, requests = q @ request_of s\<rparr>
        \<or> below_threshold (item_score it) ms"
    proof
      fix it assume "it \<in> set its"
      then have "(s, it) \<in> set (delivered L W (s # ss))"
        using Inr by (simp add: delivered_Cons)
      with Cons.prems(1) have "item_id (snd (s, it)) \<in> S \<or>
          below_threshold (item_score (snd (s, it))) ms"
        by blast
      then show "item_id it \<in> seen \<lparr>seen = S, all_items = A, errors = e,
            requests = q @ request_of s\<rparr> \<or> below_threshold (item_score it) ms"
        by simp
    qed
    have i: "item_loop ms mk s its
               \<lparr>seen = S, all_items = A, errors = e, requests = q @ request_of s\<rparr> =
             Inr \<lparr>seen = S, all_items = A, errors = e, requests = q @ request_of s\<rparr>"
      by (rule item_loop_all_skipped [OF sk])
    have "source_loop L W ms mk ss
            \<lparr>seen = S, all_items = A, errors = e, requests = q @ request_of s\<rparr> =
          Inr \<lparr>seen = S, all_items = A, errors = e @ concat (map (failure_line L W) ss),
               requests = (q @ request_of s) @ concat (map request_of ss)\<rparr>"
      using Cons.prems Inr by (intro Cons.IH) (simp_all add: delivered_Cons)
    then show ?thesis using Inr i fl by (simp add: Let_def)
  qed
qed


section \<open>Lemmas about \<open>main\<close> and the sort\<close>

lemma main_Inr:
  assumes "main L W = Inr r"
  obtains ss seen0 st where
    "sources_json W = Inr ss" "load_seen W = Inr seen0"
    "source_loop L W (min_score_of W) (mark_seen_of W) ss
       \<lparr>seen = seen0, all_items = [], errors = [], requests = []\<rparr> = Inr st"
    "r = \<lparr>digest = rank L (all_items st), state_file = save_seen (seen st),
          report = errors st, trace = requests st\<rparr>"
  using assms by (auto simp: main_def load_sources_def split: sum.splits prod.splits)

lemma set_rank: "set (rank L xs) = set xs"
  by (simp add: rank_def)

lemma mset_rank: "mset (rank L xs) = mset xs"
  by (simp add: rank_def)

lemma ranked_before_key: "ranked_before L a b \<longleftrightarrow> rank_key L b \<le> rank_key L a"
  by (auto simp: ranked_before_def rank_key_def less_eq_prod_def)

lemma sorted_rank: "sorted_wrt (ranked_before L) (rank L xs)"
proof -
  have "sorted (map (rank_key L) (sort_key (rank_key L) (rev xs)))"
    by (rule sorted_sort_key)
  then have "sorted_wrt (\<lambda>a b. rank_key L a \<le> rank_key L b) (sort_key (rank_key L) (rev xs))"
    by (simp add: sorted_wrt_map)
  then have "sorted_wrt (\<lambda>a b. rank_key L b \<le> rank_key L a) (rank L xs)"
    by (simp add: rank_def sorted_wrt_rev)
  then show ?thesis
    by (simp add: ranked_before_key [abs_def])
qed

lemma main_visits:
  assumes "main L W = Inr r" "sources_json W = Inr ss" "load_seen W = Inr seen0"
  shows "\<exists>st. visits (min_score_of W) (mark_seen_of W) (delivered L W ss)
            \<lparr>seen = seen0, all_items = [], errors = [], requests = []\<rparr> st \<and>
          digest r = rank L (all_items st) \<and> state_file r = save_seen (seen st) \<and>
          report r = concat (map (failure_line L W) ss) \<and>
          trace r = concat (map request_of ss)"
proof -
  from assms(1) obtain ss' seen0' st where
    a: "sources_json W = Inr ss'" "load_seen W = Inr seen0'"
    and l: "source_loop L W (min_score_of W) (mark_seen_of W) ss'
       \<lparr>seen = seen0', all_items = [], errors = [], requests = []\<rparr> = Inr st"
    and r: "r = \<lparr>digest = rank L (all_items st), state_file = save_seen (seen st),
          report = errors st, trace = requests st\<rparr>"
    by (rule main_Inr)
  from a assms have [simp]: "ss' = ss" "seen0' = seen0" by simp_all
  from source_loop_visits [OF l] r show ?thesis by auto
qed

lemma finite_load_seen: "load_seen W = Inr S \<Longrightarrow> finite S"
  by (auto simp: load_seen_def split: seen_file.splits)

section \<open>The example runs\<close>

text \<open>
  The adapters, the classifier and the sort are evaluated on the example data; the runs
  follow by rewriting with these values. The identifiers stay as they are: no step
  needs the value of a digest.
\<close>

lemma item_loop_Cons:
  "item_loop ms mk s (it # its) st =
     (if item_id it \<in> seen st then item_loop ms mk s its st
      else if below_threshold (item_score it) ms then item_loop ms mk s its st
      else (case scored_of s it of
              Inl e \<Rightarrow> Inl (e, st)
            | Inr x \<Rightarrow>
                item_loop ms mk s its
                  (st\<lparr>all_items := all_items st @ [x],
                      seen := (if mk then insert (item_id it) (seen st) else seen st)\<rparr>)))"
  by (simp add: scored_of_def item_score_def split: prod.splits)

lemma parse_rss_awards:
  "parse_rss example_world ''https://feeds.example.com/awards.xml'' 40 = Inr [oscars_item, office_item]"
  by code_simp

lemma parse_rss_boxoffice:
  "parse_rss example_world ''https://feeds.example.com/boxoffice.xml'' 40 = Inr [office_item]"
  by code_simp

lemma parse_rss_archive:
  "parse_rss example_world ''https://feeds.example.com/archive.xml'' 40 = Inr [old_item]"
  by code_simp

lemma parse_rss_recent:
  "parse_rss example_world ''https://feeds.example.com/recent.xml'' 40 = Inr [recent_item]"
  by code_simp

lemma parse_listing_news:
  "parse_listing stdlib example_world ''https://example.com/news'' 50 = Inr [golden_item]"
  by code_simp

lemma parse_listing_down:
  "parse_listing stdlib example_world ''https://down.example.org/'' 50 =
     Inl (Raised ''503 Server Error: Service Unavailable'')"
  by code_simp

lemma parse_rss_net:
  "feeds W = feeds W' \<Longrightarrow> parse_rss W u n = parse_rss W' u n"
  by (simp add: parse_rss_def)

lemma parse_listing_net:
  "pages W = pages W' \<Longrightarrow> parse_listing L W u n = parse_listing L W' u n"
  by (simp add: parse_listing_def)

lemma example_net:
  "feeds example_world = example_feeds" "pages example_world = example_pages"
  "feeds mark_world = example_feeds" "pages mark_world = example_pages"
  "feeds old_world = example_feeds" "pages old_world = example_pages"
  "feeds tie_world = example_feeds" "pages tie_world = example_pages"
  by (simp_all add: example_world_def mark_world_def old_world_def tie_world_def)

lemma fetch_feed_src:
  "feeds W = example_feeds \<Longrightarrow> fetch_source stdlib W feed_src = Inr [oscars_item, office_item]"
  using parse_rss_net [of W example_world] parse_rss_awards
  by (simp add: fetch_source_def has_rss_def feed_src_def example_net)

lemma fetch_office_src:
  "feeds W = example_feeds \<Longrightarrow> fetch_source stdlib W office_src = Inr [office_item]"
  using parse_rss_net [of W example_world] parse_rss_boxoffice
  by (simp add: fetch_source_def has_rss_def office_src_def example_net)

lemma fetch_archive_src:
  "feeds W = example_feeds \<Longrightarrow> fetch_source stdlib W archive_src = Inr [old_item]"
  using parse_rss_net [of W example_world] parse_rss_archive
  by (simp add: fetch_source_def has_rss_def archive_src_def example_net)

lemma fetch_recent_src:
  "feeds W = example_feeds \<Longrightarrow> fetch_source stdlib W recent_src = Inr [recent_item]"
  using parse_rss_net [of W example_world] parse_rss_recent
  by (simp add: fetch_source_def has_rss_def recent_src_def example_net)

lemma fetch_list_src:
  "pages W = example_pages \<Longrightarrow> fetch_source stdlib W list_src = Inr [golden_item]"
  using parse_listing_net [of W example_world] parse_listing_news
  by (simp add: fetch_source_def has_rss_def list_src_def example_net)

lemma fetch_down_src:
  "pages W = example_pages \<Longrightarrow>
     fetch_source stdlib W down_src = Inl (Raised ''503 Server Error: Service Unavailable'')"
  using parse_listing_net [of W example_world] parse_listing_down
  by (simp add: fetch_source_def has_rss_def down_src_def example_net)

lemma request_examples:
  "request_of feed_src = [''https://feeds.example.com/awards.xml'']"
  "request_of office_src = [''https://feeds.example.com/boxoffice.xml'']"
  "request_of archive_src = [''https://feeds.example.com/archive.xml'']"
  "request_of list_src = [''https://example.com/news'']"
  "request_of down_src = [''https://down.example.org/'']"
  "request_of recent_src = [''https://feeds.example.com/recent.xml'']"
  by (simp_all add: request_of_def has_rss_def feed_src_def office_src_def archive_src_def
      list_src_def down_src_def recent_src_def)

lemma score_oscars:
  "score_item (item_text oscars_item) =
     (7.2, [''oscar'', ''oscars'', ''nominee'', ''nominees'', ''nomination'', ''nominations''])"
  by code_simp

lemma score_office: "score_item (item_text office_item) = (0, [])"
  by code_simp

lemma score_golden:
  "score_item (item_text golden_item) =
     (4.6, [''golden globe'', ''golden globes'', ''winner'', ''winners''])"
  by code_simp

lemma score_old:
  "score_item (item_text old_item) = (4.6, [''oscar'', ''oscars'', ''nomination'', ''nominations''])"
  by code_simp

lemma score_recent:
  "score_item (item_text recent_item) =
     (4.6, [''oscar'', ''oscars'', ''nomination'', ''nominations''])"
  by code_simp

lemma score_long:
  "score_item long_text =
     (10, [''oscar'', ''bafta'', ''emmy'', ''sag'', ''dga'', ''nominee'', ''nominees'',
           ''shortlist'', ''winner'', ''winners''])"
  by code_simp

lemma item_scores:
  "item_score oscars_item = 7.2" "item_score office_item = 0"
  "item_score golden_item = 4.6" "item_score old_item = 4.6" "item_score recent_item = 4.6"
  by (simp_all add: item_score_def score_oscars score_office score_golden score_old
      score_recent)

lemma scored_oscars: "scored_of feed_src oscars_item = Inr oscars_scored"
  unfolding scored_of_def score_oscars
  by (simp add: make_scored_def feed_src_def oscars_scored_def oscars_item_def)

lemma scored_golden: "scored_of list_src golden_item = Inr golden_scored"
  unfolding scored_of_def score_golden
  by (simp add: make_scored_def list_src_def golden_scored_def golden_item_def)

lemma scored_old: "scored_of archive_src old_item = Inr old_scored"
  unfolding scored_of_def score_old
  by (simp add: make_scored_def archive_src_def old_scored_def old_item_def)

lemma scored_recent: "scored_of recent_src recent_item = Inr recent_scored"
  unfolding scored_of_def score_recent
  by (simp add: make_scored_def recent_src_def recent_scored_def recent_item_def)

lemma iso_examples:
  "fromisoformat stdlib (replace_Z ''2024-01-23T13:30:00+00:00'') = Some 1706016600000000"
  "fromisoformat stdlib (replace_Z []) = None"
  "fromisoformat stdlib (replace_Z ''1969-07-20T20:17:40+00:00'') = Some (- 14182940000000)"
  by code_simp+

lemma pub_keys:
  "pub_key stdlib ''2024-01-23T13:30:00+00:00'' = 1706016600000000"
  "pub_key stdlib [] = 0"
  "pub_key stdlib ''1969-07-20T20:17:40+00:00'' = - 14182940000000"
  by code_simp+

lemma rank_keys:
  "rank_key stdlib oscars_scored = (7.2, 1706016600000000)"
  "rank_key stdlib golden_scored = (4.6, 0)"
  "rank_key stdlib old_scored = (4.6, - 14182940000000)"
  "rank_key stdlib recent_scored = (4.6, 1706016600000000)"
  by (simp_all add: rank_key_def oscars_scored_def golden_scored_def old_scored_def
      recent_scored_def pub_keys)

lemma rank_examples:
  "rank stdlib [oscars_scored, golden_scored] = [oscars_scored, golden_scored]"
  "rank stdlib [golden_scored] = [golden_scored]"
  "rank stdlib [old_scored, golden_scored] = [golden_scored, old_scored]"
  "rank stdlib [golden_scored, recent_scored] = [recent_scored, golden_scored]"
  by (simp_all add: rank_def rank_keys less_eq_prod_def)

lemma src_names:
  "src_name down_src = Some ''Down Site''"
  by (simp add: down_src_def)

lemmas run_simps =
  main_def load_sources_def load_seen_def save_seen_def min_score_of_def mark_seen_of_def
  example_net fetch_feed_src fetch_office_src fetch_archive_src fetch_list_src fetch_down_src
  fetch_recent_src scored_recent
  request_examples item_loop_Cons item_scores scored_oscars scored_golden scored_old
  rank_examples src_names below_threshold_def down_line_def Let_def


lemma main_mark: "main stdlib mark_world = Inr mark_run"
proof -
  have w: "sources_json mark_world = Inr [office_src, down_src, list_src]"
    "state_seen_json mark_world = Absent" "env_MIN_SCORE mark_world = Some 4"
    "env_MARK_SEEN mark_world = Some ''1''"
    by (simp_all add: mark_world_def)
  show ?thesis
    by (simp add: run_simps w mark_run_def del: item_loop.simps(2))
qed

lemma main_old: "main stdlib old_world = Inr old_run"
proof -
  have w: "sources_json old_world = Inr [archive_src, list_src]"
    "state_seen_json old_world = Absent" "env_MIN_SCORE old_world = None"
    "env_MARK_SEEN old_world = None"
    by (simp_all add: old_world_def)
  show ?thesis
    by (simp add: run_simps w old_run_def del: item_loop.simps(2))
qed

lemma main_tie: "main stdlib tie_world = Inr tie_run"
proof -
  have w: "sources_json tie_world = Inr [list_src, recent_src]"
    "state_seen_json tie_world = Absent" "env_MIN_SCORE tie_world = None"
    "env_MARK_SEEN tie_world = None"
    by (simp_all add: tie_world_def)
  show ?thesis
    by (simp add: run_simps w tie_run_def del: item_loop.simps(2))
qed


lemma main_without_type:
  "main stdlib (example_world\<lparr>sources_json := Inr [feed_src\<lparr>src_type := None\<rparr>]\<rparr>) =
     Inl (KeyError ''type'', [''https://feeds.example.com/awards.xml''])"
proof -
  have w: "state_seen_json example_world = Absent" "env_MIN_SCORE example_world = None"
    "env_MARK_SEEN example_world = None"
    by (simp_all add: example_world_def)
  have f: "fetch_source stdlib example_world (feed_src\<lparr>src_type := None\<rparr>) =
      Inr [oscars_item, office_item]"
    using fetch_feed_src [of example_world]
    by (simp add: fetch_source_def has_rss_def feed_src_def example_net)
  have q: "request_of (feed_src\<lparr>src_type := None\<rparr>) = [''https://feeds.example.com/awards.xml'']"
    by (simp add: request_of_def has_rss_def feed_src_def)
  have s: "scored_of (feed_src\<lparr>src_type := None\<rparr>) oscars_item = Inl (KeyError ''type'')"
    unfolding scored_of_def score_oscars
    by (simp add: make_scored_def feed_src_def)
  show ?thesis
    by (simp add: run_simps w f q s del: item_loop.simps(2))
qed

lemma main_no_sources:
  "main stdlib (example_world\<lparr>sources_json := Inr []\<rparr>) =
     Inr \<lparr>digest = [], state_file = Stored [], report = [], trace = []\<rparr>"
  by (simp add: main_def load_sources_def load_seen_def save_seen_def example_world_def rank_def)

lemma example_files:
  "sources_json example_world = Inr [feed_src, down_src, list_src]"
  "load_seen example_world = Inr {}"
  "load_seen mark_world = Inr {}"
  "mark_seen_of mark_world" "\<not> mark_seen_of example_world"
  "min_score_of example_world = 3.5"
  by (simp_all add: example_world_def mark_world_def load_seen_def mark_seen_of_def
      min_score_of_def)




lemma strip_examples:
  "strip ''http://e.com/?q=a|b'' = ''http://e.com/?q=a|b''"
  "strip ''http://e.com/?q=a'' = ''http://e.com/?q=a''"
  "strip ''c'' = ''c''"
  "strip ''b|c'' = ''b|c''"
  "strip '' http://e.com/a '' = ''http://e.com/a''"
  "strip ''http://e.com/a'' = ''http://e.com/a''"
  "strip ''Title'' = ''Title''"
  "strip ''Title  '' = ''Title''"
  by code_simp+

section \<open>The claims\<close>

subsection \<open>C1: the stable identifier\<close>

text \<open>
  C1, as the code has it. \<open>stable_id\<close> is a function of the string
  \<open>url.strip() + "|" + title.strip()\<close>: two calls whose trimmed url and trimmed
  title give the same joined string return the same identifier, in particular two
  calls with identical arguments and two calls that differ only in surrounding
  whitespace; the identifier has 24 characters. Nothing is promised for pairs whose
  joined strings differ.
\<close>

theorem stable_id_joined:
  "(strip u @ ''|'' @ strip t = strip u' @ ''|'' @ strip t' \<longrightarrow> stable_id u t = stable_id u' t') \<and>
   length (stable_id u t) = 24"
  by (simp add: stable_id_def length_hexdigest length_sha256)

text \<open>
  An instance: whitespace around the url and the title does not change the identifier.
\<close>

theorem stable_id_joined_witness:
  "strip '' http://e.com/a '' @ ''|'' @ strip ''Title'' =
     strip ''http://e.com/a'' @ ''|'' @ strip ''Title  '' \<and>
   stable_id '' http://e.com/a '' ''Title'' = stable_id ''http://e.com/a'' ''Title  '' \<and>
   length (stable_id '' http://e.com/a '' ''Title'') = 24"
proof -
  have e: "strip '' http://e.com/a '' @ ''|'' @ strip ''Title'' =
      strip ''http://e.com/a'' @ ''|'' @ strip ''Title  ''"
    by (simp add: strip_examples)
  from stable_id_joined [of "'' http://e.com/a ''" "''Title''" "''http://e.com/a''" "''Title  ''"] e
  show ?thesis by blast
qed

text \<open>
  C1 as stated fails: the url and the title both differ after trimming, yet the
  identifiers are equal, because the separator can also occur in the fields.
\<close>

theorem stable_id_collision:
  "strip ''http://e.com/?q=a|b'' \<noteq> strip ''http://e.com/?q=a'' \<and>
   strip ''c'' \<noteq> strip ''b|c'' \<and>
   stable_id ''http://e.com/?q=a|b'' ''c'' = stable_id ''http://e.com/?q=a'' ''b|c''"
  by (simp add: stable_id_def strip_examples)

subsection \<open>C2: the score and the signals\<close>

text \<open>
  C2. For every text, \<open>score_item\<close> returns a score between 0.0 and 10.0 and a signal
  list of at most 10 entries without duplicates; the signals are the first ten
  vocabulary terms that occur in the lower-cased text, in the order in which the loop
  over \<open>AWARD_TERMS\<close> matches them.
\<close>

theorem score_item_bounded:
  "0 \<le> fst (score_item text) \<and> fst (score_item text) \<le> 10 \<and>
   length (snd (score_item text)) \<le> 10 \<and>
   distinct (snd (score_item text)) \<and>
   snd (score_item text) = take 10 (filter (\<lambda>kw. contains kw (lower text)) AWARD_TERMS)"
proof -
  have "distinct (filter (\<lambda>kw. contains kw (lower text)) AWARD_TERMS)"
    using distinct_AWARD_TERMS by (rule distinct_filter)
  then have "distinct (snd (score_item text))"
    unfolding score_item_hits by (rule distinct_take)
  moreover have "length (snd (score_item text)) \<le> 10"
    unfolding score_item_hits by simp
  ultimately show ?thesis
    using score_item_score [of "text"] score_item_hits [of "text"] by simp
qed

text \<open>
  An instance in which both bounds bite: seventeen terms match, ten are kept, and the
  score is cut to 10.
\<close>

theorem score_item_bounded_witness:
  "score_item long_text =
     (10, [''oscar'', ''bafta'', ''emmy'', ''sag'', ''dga'', ''nominee'', ''nominees'',
           ''shortlist'', ''winner'', ''winners'']) \<and>
   0 \<le> fst (score_item long_text) \<and> fst (score_item long_text) \<le> 10 \<and>
   length (snd (score_item long_text)) \<le> 10 \<and> distinct (snd (score_item long_text))"
  using score_item_bounded [of long_text] score_long by blast

subsection \<open>C3: the threshold\<close>



subsection \<open>C4: the order of the output\<close>

text \<open>
  C4, as the code has it. The output of a run that reaches its end is sorted by
  descending score and, for equal scores, by descending \<open>pub_key\<close>; a timestamp that
  does not parse has the epoch as its key; the sort keeps every item; and of two items
  with the same score, one whose timestamp parses to an instant after the epoch
  stands before one whose timestamp does not parse.
\<close>

theorem ranking_order:
  assumes "main L W = Inr r"
  shows "sorted_wrt (ranked_before L) (digest r) \<and>
         (\<forall>i j. i < length (digest r) \<longrightarrow> j < length (digest r) \<longrightarrow>
            score (digest r ! i) = score (digest r ! j) \<longrightarrow>
            (\<exists>t. fromisoformat L (replace_Z (published (digest r ! i))) = Some t \<and> 0 < t) \<longrightarrow>
            fromisoformat L (replace_Z (published (digest r ! j))) = None \<longrightarrow> i < j) \<and>
         (\<forall>p. fromisoformat L (replace_Z p) = None \<longrightarrow> pub_key L p = 0) \<and>
         (\<forall>xs. mset (rank L xs) = mset xs)"
proof -
  from assms obtain xs where d: "digest r = rank L xs"
    by (auto elim!: main_Inr)
  have s: "sorted_wrt (ranked_before L) (digest r)"
    unfolding d by (rule sorted_rank)
  have p: "\<forall>i j. i < length (digest r) \<longrightarrow> j < length (digest r) \<longrightarrow>
            score (digest r ! i) = score (digest r ! j) \<longrightarrow>
            (\<exists>t. fromisoformat L (replace_Z (published (digest r ! i))) = Some t \<and> 0 < t) \<longrightarrow>
            fromisoformat L (replace_Z (published (digest r ! j))) = None \<longrightarrow> i < j"
  proof (intro allI impI)
    fix i j
    assume i: "i < length (digest r)" and j: "j < length (digest r)"
      and e: "score (digest r ! i) = score (digest r ! j)"
      and v: "\<exists>t. fromisoformat L (replace_Z (published (digest r ! i))) = Some t \<and> 0 < t"
      and u: "fromisoformat L (replace_Z (published (digest r ! j))) = None"
    from v u have k: "pub_key L (published (digest r ! j)) < pub_key L (published (digest r ! i))"
      by (auto simp: pub_key_def)
    show "i < j"
    proof (rule ccontr)
      assume "\<not> i < j"
      with v u have "j < i" by (cases "i = j") auto
      with s i have "ranked_before L (digest r ! j) (digest r ! i)"
        by (simp add: sorted_wrt_iff_nth_less)
      with e k show False by (simp add: ranked_before_def)
    qed
  qed
  from s p show ?thesis by (simp add: pub_key_def mset_rank)
qed

text \<open>
  An instance: the listing item without a timestamp is delivered first, and the feed
  item of 2024 with the same score stands before it in the output.
\<close>

theorem ranking_order_witness:
  "main stdlib tie_world = Inr tie_run \<and>
   digest tie_run = [recent_scored, golden_scored] \<and>
   score (digest tie_run ! 0) = score (digest tie_run ! 1) \<and>
   fromisoformat stdlib (replace_Z (published (digest tie_run ! 0))) = Some 1706016600000000 \<and>
   fromisoformat stdlib (replace_Z (published (digest tie_run ! 1))) = None \<and>
   (0::nat) < 1 \<and>
   sorted_wrt (ranked_before stdlib) (digest tie_run) \<and>
   pub_key stdlib (published golden_scored) = 0"
proof -
  note t = ranking_order [OF main_tie]
  have d: "digest tie_run = [recent_scored, golden_scored]" by (simp add: tie_run_def)
  have p0: "fromisoformat stdlib (replace_Z (published recent_scored)) = Some 1706016600000000"
    by (simp add: recent_scored_def iso_examples)
  have p1: "fromisoformat stdlib (replace_Z (published golden_scored)) = None"
    by (simp add: golden_scored_def iso_examples)
  have e: "score recent_scored = score golden_scored"
    by (simp add: recent_scored_def golden_scored_def)
  note pr = t [THEN conjunct2, THEN conjunct1, rule_format, of 0 1]
  have "\<exists>t. fromisoformat stdlib (replace_Z (published (digest tie_run ! 0))) = Some t \<and> 0 < t"
    using p0 d by simp
  with pr d p1 e have lt: "(0::nat) < 1" by simp
  note s = t [THEN conjunct1]
  from t [THEN conjunct2, THEN conjunct2, THEN conjunct1, rule_format, of "published golden_scored"] p1
  have k: "pub_key stdlib (published golden_scored) = 0" by simp
  from lt s k d p0 p1 e main_tie show ?thesis by simp
qed

text \<open>
  C4 as stated fails for a valid timestamp before the epoch: the item of 1969 and the
  item without a timestamp have the same score, and the item without a timestamp
  comes first.
\<close>

theorem ranking_valid_not_first:
  "main stdlib old_world = Inr old_run \<and>
   digest old_run = [golden_scored, old_scored] \<and>
   score golden_scored = score old_scored \<and>
   fromisoformat stdlib (replace_Z (published golden_scored)) = None \<and>
   fromisoformat stdlib (replace_Z (published old_scored)) = Some (- 14182940000000)"
proof -
  have p0: "fromisoformat stdlib (replace_Z (published old_scored)) = Some (- 14182940000000)"
    by (simp add: old_scored_def iso_examples)
  have p1: "fromisoformat stdlib (replace_Z (published golden_scored)) = None"
    by (simp add: golden_scored_def iso_examples)
  show ?thesis
    using main_old p0 p1 by (simp add: old_run_def old_scored_def golden_scored_def)
qed

subsection \<open>C5: a second run over the same content\<close>

text \<open>
  C5. If a run in mark-seen mode reaches its end, the run that starts from the state
  file it wrote, with the same sources, settings and network answers, reaches its end
  too, with an empty output, the same state file and the same failures.
\<close>

theorem second_run_empty:
  assumes "main L W = Inr r" and "mark_seen_of W"
  shows "main L (W\<lparr>state_seen_json := state_file r\<rparr>) =
           Inr \<lparr>digest = [], state_file = state_file r, report = report r, trace = trace r\<rparr>"
proof -
  from assms(1) obtain ss seen0 st where
    a: "sources_json W = Inr ss" "load_seen W = Inr seen0"
    and l: "source_loop L W (min_score_of W) (mark_seen_of W) ss
       \<lparr>seen = seen0, all_items = [], errors = [], requests = []\<rparr> = Inr st"
    and r: "r = \<lparr>digest = rank L (all_items st), state_file = save_seen (seen st),
          report = errors st, trace = requests st\<rparr>"
    by (rule main_Inr)
  let ?W = "W\<lparr>state_seen_json := state_file r\<rparr>"
  from source_loop_visits [OF l] assms(2) have
    v: "visits (min_score_of W) True (delivered L W ss)
          \<lparr>seen = seen0, all_items = [], errors = [], requests = []\<rparr> st"
    and e: "errors st = concat (map (failure_line L W) ss)"
    and q: "requests st = concat (map request_of ss)"
    and n: "\<forall>s\<in>set ss. \<not> succeeds L W s \<longrightarrow> src_name s \<noteq> None"
    by simp_all
  have fin: "finite (seen st)"
    using visits_finite [OF v] finite_load_seen [OF a(2)] by simp
  then have ls: "load_seen ?W = Inr (seen st)"
    by (simp add: load_seen_def r save_seen_def)
  have sk: "\<forall>p\<in>set (delivered L W ss).
      item_id (snd p) \<in> seen st \<or> below_threshold (item_score (snd p)) (min_score_of W)"
    using visits_marked [OF v] by simp
  have "source_loop L ?W (min_score_of W) (mark_seen_of W) ss
          \<lparr>seen = seen st, all_items = [], errors = [], requests = []\<rparr> =
        source_loop L W (min_score_of W) (mark_seen_of W) ss
          \<lparr>seen = seen st, all_items = [], errors = [], requests = []\<rparr>"
    by (rule source_loop_cong) simp
  also have "\<dots> = Inr \<lparr>seen = seen st, all_items = [], errors = errors st, requests = requests st\<rparr>"
    using source_loop_all_skipped [OF sk n, of "mark_seen_of W" "[]" "[]" "[]"] e q by simp
  finally have sl: "source_loop L ?W (min_score_of W) (mark_seen_of W) ss
          \<lparr>seen = seen st, all_items = [], errors = [], requests = []\<rparr> =
        Inr \<lparr>seen = seen st, all_items = [], errors = errors st, requests = requests st\<rparr>" .
  have m: "min_score_of ?W = min_score_of W" "mark_seen_of ?W = mark_seen_of W"
    by (simp_all add: min_score_of_def mark_seen_of_def)
  show ?thesis
    using a(1) ls sl m
    by (simp add: main_def load_sources_def r rank_def)
qed

text \<open>
  An instance: the marking run puts one item out; the run after it puts none.
\<close>

theorem second_run_empty_witness:
  "main stdlib mark_world = Inr mark_run \<and> mark_seen_of mark_world \<and>
   main stdlib (mark_world\<lparr>state_seen_json := Stored [item_id golden_item]\<rparr>) =
     Inr \<lparr>digest = [], state_file = Stored [item_id golden_item], report = [down_line],
          trace = [''https://feeds.example.com/boxoffice.xml'', ''https://down.example.org/'',
                   ''https://example.com/news'']\<rparr>"
  using second_run_empty [OF main_mark example_files(4)] main_mark example_files(4)
  by (simp add: mark_run_def)

subsection \<open>C6: the links of a listing page\<close>

text \<open>
  C6. Every item \<open>parse_listing\<close> returns has a url whose network location is that
  of the listing page and whose lower-cased form contains none of the words of
  \<open>bad\<close>; so a link to another host is never returned.
\<close>

theorem parse_listing_same_host:
  assumes "parse_listing L W page_url limit = Inr items" and "it \<in> set items"
  shows "netloc L (url it) = netloc L page_url \<and>
         (\<forall>b \<in> set bad. \<not> contains b (lower (url it)))"
proof -
  from assms(1) obtain anchors site_host found where
    h: "netloc L page_url = Inr site_host"
    and f: "listing_loop L page_url site_host anchors = Inr found"
    and i: "items = take limit (dedupe_url {} found)"
    by (auto simp: parse_listing_def split: sum.splits)
  from i assms(2) have "it \<in> set found"
    using dedupe_url_subset [of "{}" found] by (auto dest: in_set_takeD)
  from listing_loop_ok [OF f this] h show ?thesis
    by (simp add: list_ex_iff)
qed

text \<open>
  An instance: of the four links of the example page, the one to another host, the
  one under \<open>/about\<close> and the short one are dropped.
\<close>

theorem parse_listing_same_host_witness:
  "parse_listing stdlib example_world ''https://example.com/news'' 50 = Inr [golden_item] \<and>
   netloc stdlib (url golden_item) = netloc stdlib ''https://example.com/news'' \<and>
   netloc stdlib ''https://other.com/article'' \<noteq> netloc stdlib ''https://example.com/news'' \<and>
   \<not> contains ''about'' (lower (url golden_item))"
proof -
  have i: "golden_item \<in> set [golden_item]" by simp
  have b: "''about'' \<in> set bad" by (simp add: bad_def)
  have o: "netloc stdlib ''https://other.com/article'' \<noteq> netloc stdlib ''https://example.com/news''"
    by code_simp
  from parse_listing_same_host [OF parse_listing_news i] b o parse_listing_news
  show ?thesis by blast
qed

subsection \<open>C7: a source that fails\<close>



subsection \<open>C8: loading the seen set\<close>

text \<open>
  C8, as the code has it. A missing state file gives the empty set; a state file that
  holds a list gives the set of its elements; a state file that cannot be read or
  decoded makes \<open>load_seen\<close> raise, and \<open>main\<close> then ends with that exception
  before any request.
\<close>

theorem load_seen_cases:
  "(state_seen_json W = Absent \<longrightarrow> load_seen W = Inr {}) \<and>
   (state_seen_json W = Stored ids \<longrightarrow> load_seen W = Inr (set ids)) \<and>
   (state_seen_json W = Unreadable e \<longrightarrow>
      load_seen W = Inl e \<and> (\<forall>ss. sources_json W = Inr ss \<longrightarrow> main L W = Inl (e, [])))"
  by (simp add: load_seen_def main_def load_sources_def)

text \<open>
  An instance of each of the three cases.
\<close>

theorem load_seen_cases_witness:
  "state_seen_json example_world = Absent \<and> load_seen example_world = Inr {} \<and>
   load_seen (example_world\<lparr>state_seen_json := Stored [''0123456789abcdef01234567'']\<rparr>) =
     Inr {''0123456789abcdef01234567''} \<and>
   load_seen (example_world\<lparr>state_seen_json := Unreadable (Raised ''Expecting value'')\<rparr>) =
     Inl (Raised ''Expecting value'') \<and>
   main stdlib (example_world\<lparr>state_seen_json := Unreadable (Raised ''Expecting value'')\<rparr>) =
     Inl (Raised ''Expecting value'', [])"
proof -
  have a: "state_seen_json example_world = Absent" by (simp add: example_world_def)
  have s: "sources_json (example_world\<lparr>state_seen_json := Unreadable (Raised ''Expecting value'')\<rparr>)
             = Inr [feed_src, down_src, list_src]"
    by (simp add: example_world_def)
  from load_seen_cases [of example_world "[]" "Raised ''X''" stdlib] a
  have 1: "load_seen example_world = Inr {}" by simp
  from load_seen_cases [of "example_world\<lparr>state_seen_json := Stored [''0123456789abcdef01234567'']\<rparr>"
      "[''0123456789abcdef01234567'']" "Raised ''X''" stdlib]
  have 2: "load_seen (example_world\<lparr>state_seen_json := Stored [''0123456789abcdef01234567'']\<rparr>) =
     Inr {''0123456789abcdef01234567''}" by simp
  from load_seen_cases [of "example_world\<lparr>state_seen_json := Unreadable (Raised ''Expecting value'')\<rparr>"
      "[]" "Raised ''Expecting value''" stdlib] s
  have 3: "load_seen (example_world\<lparr>state_seen_json := Unreadable (Raised ''Expecting value'')\<rparr>) =
     Inl (Raised ''Expecting value'') \<and>
   main stdlib (example_world\<lparr>state_seen_json := Unreadable (Raised ''Expecting value'')\<rparr>) =
     Inl (Raised ''Expecting value'', [])" by simp
  from a 1 2 3 show ?thesis by simp
qed

text \<open>
  C8 as stated fails: a state file that does not decode ends the run.
\<close>

theorem load_seen_unreadable_aborts:
  "load_seen (example_world\<lparr>state_seen_json := Unreadable (Raised ''Expecting value'')\<rparr>)
     = Inl (Raised ''Expecting value'') \<and>
   main stdlib (example_world\<lparr>state_seen_json := Unreadable (Raised ''Expecting value'')\<rparr>)
     = Inl (Raised ''Expecting value'', [])"
  by (simp add: load_seen_def main_def load_sources_def example_world_def)

subsection \<open>C9: the source list\<close>

text \<open>
  C9, as the code has it. If \<open>sources.json\<close> cannot be read or decoded, \<open>main\<close>
  ends with that exception before any request. An empty list is accepted: the run
  reaches its end with an empty output, no failures and no requests, and writes the
  seen set back. The entries are not checked before the loop: a single entry with a
  name and neither \<open>rss\<close> nor \<open>url\<close> is reported as a failed source.
\<close>

theorem sources_not_validated:
  "(sources_json W = Inl e \<longrightarrow> main L W = Inl (e, [])) \<and>
   (sources_json W = Inr [] \<longrightarrow> load_seen W = Inr S \<longrightarrow>
      main L W = Inr \<lparr>digest = [], state_file = save_seen S, report = [], trace = []\<rparr>) \<and>
   (sources_json W = Inr [s] \<longrightarrow> load_seen W = Inr S \<longrightarrow>
      src_rss s = None \<longrightarrow> src_url s = None \<longrightarrow> src_name s = Some n \<longrightarrow>
      main L W = Inr \<lparr>digest = [], state_file = save_seen S,
                      report = [n @ '': '' @ exn_str (KeyError ''url'')], trace = []\<rparr>)"
  by (simp add: main_def load_sources_def rank_def fetch_source_def has_rss_def request_of_def
      Let_def)

text \<open>
  An instance of each of the three cases.
\<close>

theorem sources_not_validated_witness:
  "main stdlib (example_world\<lparr>sources_json := Inl (Raised ''No such file or directory'')\<rparr>) =
     Inl (Raised ''No such file or directory'', []) \<and>
   main stdlib (example_world\<lparr>sources_json := Inr []\<rparr>) =
     Inr \<lparr>digest = [], state_file = save_seen {}, report = [], trace = []\<rparr> \<and>
   main stdlib (example_world\<lparr>sources_json := Inr [down_src\<lparr>src_url := None\<rparr>]\<rparr>) =
     Inr \<lparr>digest = [], state_file = save_seen {},
          report = [''Down Site: '' @ exn_str (KeyError ''url'')], trace = []\<rparr>"
proof -
  let ?e = "Raised ''No such file or directory''"
  let ?s = "down_src\<lparr>src_url := None\<rparr>"
  have l: "\<And>x. load_seen (example_world\<lparr>sources_json := x\<rparr>) = Inr {}"
    by (simp add: load_seen_def example_world_def)
  have f: "src_rss ?s = None" "src_url ?s = None" "src_name ?s = Some ''Down Site''"
    by (simp_all add: down_src_def)
  from sources_not_validated [of "example_world\<lparr>sources_json := Inl ?e\<rparr>" ?e stdlib "{}" ?s "[]"]
  have 1: "main stdlib (example_world\<lparr>sources_json := Inl ?e\<rparr>) = Inl (?e, [])" by simp
  from sources_not_validated [of "example_world\<lparr>sources_json := Inr []\<rparr>" ?e stdlib "{}" ?s "[]"] l
  have 2: "main stdlib (example_world\<lparr>sources_json := Inr []\<rparr>) =
     Inr \<lparr>digest = [], state_file = save_seen {}, report = [], trace = []\<rparr>" by simp
  from sources_not_validated [of "example_world\<lparr>sources_json := Inr [?s]\<rparr>" ?e stdlib "{}" ?s
      "''Down Site''"] l f
  have 3: "main stdlib (example_world\<lparr>sources_json := Inr [?s]\<rparr>) =
     Inr \<lparr>digest = [], state_file = save_seen {},
          report = [''Down Site: '' @ exn_str (KeyError ''url'')], trace = []\<rparr>" by simp
  from 1 2 3 show ?thesis by simp
qed

text \<open>
  C9 as stated fails: the run over an empty list reaches its end, and an entry
  without \<open>type\<close> is found out only after its feed was requested.
\<close>

theorem empty_sources_accepted:
  "main stdlib (example_world\<lparr>sources_json := Inr []\<rparr>) =
     Inr \<lparr>digest = [], state_file = Stored [], report = [], trace = []\<rparr> \<and>
   main stdlib (example_world\<lparr>sources_json := Inr [feed_src\<lparr>src_type := None\<rparr>]\<rparr>) =
     Inl (KeyError ''type'', [''https://feeds.example.com/awards.xml''])"
  using main_no_sources main_without_type by simp

subsection \<open>C10: what is marked as seen\<close>

text \<open>
  C10. If a run reaches its end, the state file it writes holds the seen set it
  loaded, and in mark-seen mode also the identifiers of the items of its output, and
  nothing else: no identifier is added for an item that was skipped.
\<close>

theorem mark_seen_only_output:
  assumes "main L W = Inr r" and "load_seen W = Inr seen0"
  shows "state_file r =
           save_seen (if mark_seen_of W then seen0 \<union> sid ` set (digest r) else seen0)"
proof -
  from assms(1) obtain ss where ss: "sources_json W = Inr ss"
    by (rule main_Inr)
  from main_visits [OF assms(1) ss assms(2)] obtain st where
    v: "visits (min_score_of W) (mark_seen_of W) (delivered L W ss)
            \<lparr>seen = seen0, all_items = [], errors = [], requests = []\<rparr> st"
    and d: "digest r = rank L (all_items st)" and f: "state_file r = save_seen (seen st)"
    by blast
  from v obtain new where "all_items st = new"
    "seen st = (if mark_seen_of W then seen0 \<union> sid ` set new else seen0)"
    unfolding visits_def by auto
  with d f show ?thesis by (simp add: set_rank)
qed

text \<open>
  An instance: the marking run skips the item below the threshold and writes the
  identifier of the one item of its output.
\<close>

theorem mark_seen_only_output_witness:
  "main stdlib mark_world = Inr mark_run \<and> load_seen mark_world = Inr {} \<and>
   mark_seen_of mark_world \<and>
   delivered stdlib mark_world [office_src, down_src, list_src] =
     [(office_src, office_item), (list_src, golden_item)] \<and>
   digest mark_run = [golden_scored] \<and>
   state_file mark_run = save_seen ({} \<union> sid ` set (digest mark_run)) \<and>
   state_file mark_run = Stored [item_id golden_item]"
proof -
  have d: "delivered stdlib mark_world [office_src, down_src, list_src] =
     [(office_src, office_item), (list_src, golden_item)]"
    by (simp add: delivered_def fetch_office_src fetch_down_src fetch_list_src example_net)
  from mark_seen_only_output [OF main_mark example_files(3)] example_files(4)
  have "state_file mark_run = save_seen ({} \<union> sid ` set (digest mark_run))" by simp
  with d main_mark example_files show ?thesis by (simp add: mark_run_def)
qed

end
